theory Spec2Isabelle
  imports Main
begin

section \<open>Data model\<close>

text \<open>
  The tables of the blogging backend, as the controllers in
  \<^verbatim>\<open>server/controllers/Articles.js\<close> and \<^verbatim>\<open>server/controllers/Users.js\<close> use them.
  A table is the list of its rows. Primary keys are auto-increment integers (\<open>nat\<close>);
  JavaScript's \<open>undefined\<close> / \<open>null\<close> is \<open>None\<close>; \<open>Date.now()\<close> is a number of
  milliseconds (\<open>nat\<close>).
\<close>

text \<open>
  A row of the Like table and of the Dislike table: both are polymorphic through
  \<open>contentType\<close> and \<open>contentId\<close> (see the \<open>hasMany\<close> scopes of
  \<^verbatim>\<open>server/database/models/article.js\<close>).
\<close>

record like_row =
  userId :: nat
  contentType :: string
  contentId :: nat

text \<open>The columns of \<^verbatim>\<open>server/database/models/article.js\<close> (\<open>aid\<close> is the primary key \<open>id\<close>).\<close>

record article =
  aid :: nat
  slug :: string
  title :: string
  description :: "string option"
  image :: string
  articleBody :: "string option"
  authorId :: nat
  categoryId :: nat
  likesCount :: int
  dislikesCount :: int
  publishedAt :: "nat option"
  isArchived :: bool

record category =
  cid :: nat
  name :: string

record tag_row =
  tag_id :: nat
  tag_name :: string

text \<open>The Tag table and the join table \<open>ArticleTags\<close> (articleId, tagId).\<close>

record tagstore =
  tagRows :: "tag_row list"
  articleTags :: "(nat \<times> nat) list"

text \<open>
  A row of the User table, with the columns the controllers read. The same record is the
  user object of a response, where \<open>delete user.dataValues.password\<close> leaves no password.
\<close>

record user_row =
  uid :: nat
  email :: string
  userName :: string
  password :: "string option"
  verified :: bool

record session_row =
  session_userId :: nat
  session_token :: string
  session_expiresAt :: nat
  session_userAgent :: string
  session_ipAddress :: string
  session_devicePlatform :: string

record reset_row =
  reset_token :: string
  reset_userId :: nat

record db =
  articles :: "article list"
  likes :: "like_row list"
  dislikes :: "like_row list"
  categories :: "category list"
  tagTables :: tagstore
  users :: "user_row list"
  sessions :: "session_row list"
  resetPasswords :: "reset_row list"

section \<open>Responses and exceptions\<close>

datatype exn = TypeError | ValidationError | BcryptError | HeadersSent

text \<open>
  The JSON bodies the controllers send. \<open>MessageArticle\<close> is \<open>{ message, article }\<close> of
  \<open>customArticleResponse\<close>: the article may be \<open>null\<close>, and carries the included likes
  or dislikes of the user when the query asked for them. \<open>ArticleValues\<close> and
  \<open>UpdatedValues\<close> are the \<open>dataValues\<close> of an article with its \<open>tagList\<close> and
  \<open>category\<close>; \<open>UserToken\<close> is \<open>{ user, token }\<close>; \<open>ArticlesPage\<close> is
  \<open>{ articles: { total, data } }\<close>; \<open>ArticleOnly\<close> is \<open>{ article }\<close>; \<open>ArticleDetail\<close> is the
  body the helper \<open>articleResponse\<close> makes of an article.
\<close>

datatype payload =
    MessageArticle string "(article \<times> like_row list option) option"
  | Message string
  | Error string
  | ServerError
  | ArticleValues article "string list" "nat \<times> string"
  | UpdatedValues article "string list" "category option"
  | UserToken user_row string
  | ArticlesPage nat "article list"
  | ArticleOnly article
  | ArticleDetail article

record response =
  status :: nat
  payload :: payload

text \<open>
  What a controller call leaves behind: the response the client got (\<open>None\<close> when none
  was sent) and the exception that left the controller (the rejected promise), if any.
\<close>

record outcome =
  sent :: "response option"
  escaped :: "exn option"

text \<open>
  \<open>serverResponse(res, status, data)\<close> is \<open>res.status(status).json(data)\<close>;
  \<open>serverError(res)\<close> sends the generic 500. Neither helper is among the source files;
  the text of the generic error is not known, so it is the constructor \<open>ServerError\<close>.
\<close>

definition serverResponse :: "nat \<Rightarrow> payload \<Rightarrow> response" where
  "serverResponse statusCode data = \<lparr>status = statusCode, payload = data\<rparr>"

definition serverError :: response where
  "serverError = \<lparr>status = 500, payload = ServerError\<rparr>"

text \<open>
  A controller written \<open>try { ... return serverResponse(...) } catch (error) { return
  serverError(res) }\<close>. The body either hands a response to \<open>serverResponse\<close> (\<open>Inr\<close>) or
  throws (\<open>Inl\<close>). \<open>res\<close> holds the response already sent on this request, if any:
  Express refuses a second send with \<open>ERR_HTTP_HEADERS_SENT\<close>, which is thrown inside the
  \<open>try\<close>, and again by \<open>serverError\<close> inside the \<open>catch\<close>, so it leaves the controller.
\<close>

definition tryCatch :: "response option \<Rightarrow> exn + response \<Rightarrow> outcome" where
  "tryCatch res body =
     (case res of
        Some r0 \<Rightarrow> \<lparr>sent = Some r0, escaped = Some HeadersSent\<rparr>
      | None \<Rightarrow>
          (case body of
             Inr r \<Rightarrow> \<lparr>sent = Some r, escaped = None\<rparr>
           | Inl e \<Rightarrow> \<lparr>sent = Some serverError, escaped = None\<rparr>))"

text \<open>A controller with no \<open>try\<close>/\<open>catch\<close>: an exception of the body leaves it.\<close>

definition noCatch :: "exn + response \<Rightarrow> outcome" where
  "noCatch body =
     (case body of
        Inr r \<Rightarrow> \<lparr>sent = Some r, escaped = None\<rparr>
      | Inl e \<Rightarrow> \<lparr>sent = None, escaped = Some e\<rparr>)"

section \<open>Likes and dislikes\<close>

text \<open>\<open>Article.findBySlug\<close>: \<open>findOne({ where: { slug } })\<close>, the first matching row or null.\<close>

definition findBySlug :: "string \<Rightarrow> db \<Rightarrow> article option" where
  "findBySlug sl s = find (\<lambda>a. slug a = sl) (articles s)"

text \<open>
  The scope of the associations \<open>likes\<close> and \<open>dislikes\<close> of an article:
  \<open>foreignKey: 'contentId'\<close>, \<open>scope: { contentType: 'article' }\<close>.
\<close>

definition ofArticle :: "article \<Rightarrow> like_row \<Rightarrow> bool" where
  "ofArticle a r \<longleftrightarrow> contentId r = aid a \<and> contentType r = ''article''"

definition countLikes :: "article \<Rightarrow> db \<Rightarrow> nat" where
  "countLikes a s = length (filter (ofArticle a) (likes s))"

definition countDislikes :: "article \<Rightarrow> db \<Rightarrow> nat" where
  "countDislikes a s = length (filter (ofArticle a) (dislikes s))"

text \<open>\<open>article.getLikes({ where: { userId } })\<close> and \<open>article.getDislikes({ where: { userId } })\<close>.\<close>

definition getLikes :: "article \<Rightarrow> nat \<Rightarrow> db \<Rightarrow> like_row list" where
  "getLikes a u s = filter (\<lambda>r. ofArticle a r \<and> userId r = u) (likes s)"

definition getDislikes :: "article \<Rightarrow> nat \<Rightarrow> db \<Rightarrow> like_row list" where
  "getDislikes a u s = filter (\<lambda>r. ofArticle a r \<and> userId r = u) (dislikes s)"

text \<open>\<open>model.destroy({ where: { userId, contentType: 'article', contentId: article.id } })\<close>.\<close>

definition destroy :: "nat \<Rightarrow> nat \<Rightarrow> like_row list \<Rightarrow> like_row list" where
  "destroy u i rows =
     filter (\<lambda>r. \<not> (userId r = u \<and> contentType r = ''article'' \<and> contentId r = i)) rows"

text \<open>\<open>article.createLike({ userId })\<close>: the association fills in the key and the scope.\<close>

definition newRow :: "article \<Rightarrow> nat \<Rightarrow> like_row" where
  "newRow a u = \<lparr>userId = u, contentType = ''article'', contentId = aid a\<rparr>"

text \<open>\<open>Article.update(values, { where: { id } })\<close>: every row with that id is changed.\<close>

definition updateById :: "nat \<Rightarrow> (article \<Rightarrow> article) \<Rightarrow> db \<Rightarrow> db" where
  "updateById i f s = s\<lparr>articles := map (\<lambda>a. if aid a = i then f a else a) (articles s)\<rparr>"

definition createLikeOrDislike :: "string \<Rightarrow> nat \<Rightarrow> article \<Rightarrow> db \<Rightarrow> db" where
  "createLikeOrDislike userAction u a s =
     (if userAction = ''like'' then
        (let s1 = s\<lparr>dislikes := destroy u (aid a) (dislikes s)\<rparr>;
             s2 = updateById (aid a) (\<lambda>x. x\<lparr>dislikesCount := int (countDislikes a s1)\<rparr>) s1;
             s3 = s2\<lparr>likes := likes s2 @ [newRow a u]\<rparr>
         in updateById (aid a) (\<lambda>x. x\<lparr>likesCount := int (countLikes a s3)\<rparr>) s3)
      else
        (let s1 = s\<lparr>likes := destroy u (aid a) (likes s)\<rparr>;
             s2 = updateById (aid a) (\<lambda>x. x\<lparr>likesCount := int (countLikes a s1)\<rparr>) s1;
             s3 = s2\<lparr>dislikes := dislikes s2 @ [newRow a u]\<rparr>
         in updateById (aid a) (\<lambda>x. x\<lparr>dislikesCount := int (countDislikes a s3)\<rparr>) s3))"

text \<open>
  \<open>customArticleResponse\<close>: the article is read again by slug; for \<open>'like'\<close> the query
  includes the user's likes, for any other action but \<open>'removeLikeOrDislike'\<close> the user's
  dislikes. An include with a \<open>where\<close> is an inner join: an article with no such row is
  not found.
\<close>

definition findOneIncluding ::
  "string \<Rightarrow> (article \<Rightarrow> like_row list) \<Rightarrow> db \<Rightarrow> (article \<times> like_row list option) option" where
  "findOneIncluding sl rowsOf s =
     map_option (\<lambda>a. (a, Some (rowsOf a))) (find (\<lambda>a. slug a = sl \<and> rowsOf a \<noteq> []) (articles s))"

definition customArticleResponse ::
  "nat \<Rightarrow> string \<Rightarrow> nat \<Rightarrow> string \<Rightarrow> string \<Rightarrow> db \<Rightarrow> response" where
  "customArticleResponse statusCode sl u userAction message s =
     (let found =
        (if userAction = ''removeLikeOrDislike'' then map_option (\<lambda>a. (a, None)) (findBySlug sl s)
         else if userAction = ''like'' then findOneIncluding sl (\<lambda>a. getLikes a u s) s
         else findOneIncluding sl (\<lambda>a. getDislikes a u s) s)
      in serverResponse statusCode (MessageArticle message found))"

definition addLike :: "nat \<Rightarrow> string \<Rightarrow> db \<Rightarrow> outcome \<times> db" where
  "addLike u sl s =
     (case findBySlug sl s of
        None \<Rightarrow> (tryCatch None (Inr (serverResponse 404 (Error ''article not found''))), s)
      | Some a \<Rightarrow>
          if getLikes a u s \<noteq> [] then
            (tryCatch None (Inr (serverResponse 200 (Message ''you have already liked this article''))), s)
          else
            (let s' = createLikeOrDislike ''like'' u a s
             in (tryCatch None (Inr (customArticleResponse 201 sl u ''like'' ''like added successfully'' s')), s')))"

definition addDislike :: "nat \<Rightarrow> string \<Rightarrow> db \<Rightarrow> outcome \<times> db" where
  "addDislike u sl s =
     (case findBySlug sl s of
        None \<Rightarrow> (tryCatch None (Inr (serverResponse 404 (Error ''article not found''))), s)
      | Some a \<Rightarrow>
          if getDislikes a u s \<noteq> [] then
            (tryCatch None (Inr (serverResponse 200 (Message ''you have already disliked this article''))), s)
          else
            (let s' = createLikeOrDislike ''dislike'' u a s
             in (tryCatch None (Inr (customArticleResponse 201 sl u ''dislike'' ''dislike added successfully'' s')), s')))"

definition removeLike :: "nat \<Rightarrow> string \<Rightarrow> db \<Rightarrow> outcome \<times> db" where
  "removeLike u sl s =
     (case findBySlug sl s of
        None \<Rightarrow> (tryCatch None (Inr (serverResponse 404 (Error ''article not found''))), s)
      | Some a \<Rightarrow>
          (let s1 = s\<lparr>likes := destroy u (aid a) (likes s)\<rparr>;
               s' = updateById (aid a) (\<lambda>x. x\<lparr>likesCount := int (countLikes a s1)\<rparr>) s1
           in (tryCatch None (Inr (customArticleResponse 200 sl u ''removeLikeOrDislike''
                 ''like removed successfully'' s')), s')))"

definition removeDislike :: "nat \<Rightarrow> string \<Rightarrow> db \<Rightarrow> outcome \<times> db" where
  "removeDislike u sl s =
     (case findBySlug sl s of
        None \<Rightarrow> (tryCatch None (Inr (serverResponse 404 (Error ''article not found''))), s)
      | Some a \<Rightarrow>
          (let s1 = s\<lparr>dislikes := destroy u (aid a) (dislikes s)\<rparr>;
               s' = updateById (aid a) (\<lambda>x. x\<lparr>dislikesCount := int (countDislikes a s1)\<rparr>) s1
           in (tryCatch None (Inr (customArticleResponse 200 sl u ''removeLikeOrDislike''
                 ''dislike removed successfully'' s')), s')))"

text \<open>A request to one of the four endpoints, by user and slug, and a run of such requests.\<close>

datatype reaction_request =
    AddLike nat string
  | AddDislike nat string
  | RemoveLike nat string
  | RemoveDislike nat string

fun handle :: "reaction_request \<Rightarrow> db \<Rightarrow> outcome \<times> db" where
  "handle (AddLike u sl) s = addLike u sl s"
| "handle (AddDislike u sl) s = addDislike u sl s"
| "handle (RemoveLike u sl) s = removeLike u sl s"
| "handle (RemoveDislike u sl) s = removeDislike u sl s"

fun handleAll :: "reaction_request list \<Rightarrow> db \<Rightarrow> db" where
  "handleAll [] s = s"
| "handleAll (r # rs) s = handleAll rs (snd (handle r s))"

text \<open>The stored counts of every article agree with the rows of the two tables.\<close>

definition countsAgree :: "db \<Rightarrow> bool" where
  "countsAgree s \<longleftrightarrow>
     (\<forall>a \<in> set (articles s).
        likesCount a = int (countLikes a s) \<and> dislikesCount a = int (countDislikes a s))"

text \<open>The rows user \<open>u\<close> holds on the article with id \<open>i\<close>, in both tables together.\<close>

definition reactionsOf :: "nat \<Rightarrow> nat \<Rightarrow> db \<Rightarrow> nat" where
  "reactionsOf u i s =
     length (filter (\<lambda>r. userId r = u \<and> contentType r = ''article'' \<and> contentId r = i) (likes s))
   + length (filter (\<lambda>r. userId r = u \<and> contentType r = ''article'' \<and> contentId r = i) (dislikes s))"

text \<open>
  No user holds more than one row, like or dislike, on one article. It is enough to look
  at the users and articles of the rows there are.
\<close>

definition atMostOne :: "db \<Rightarrow> bool" where
  "atMostOne s \<longleftrightarrow>
     (\<forall>r \<in> set (likes s @ dislikes s). reactionsOf (userId r) (contentId r) s \<le> 1)"

section \<open>Creating and updating articles\<close>

text \<open>
  The fields of \<open>req.body\<close> the two controllers read. A field is a string or absent;
  \<open>tags\<close> is the comma-separated text that \<open>tags += `,${category}`\<close> makes of it.
\<close>

record body =
  body_title :: "string option"
  body_description :: "string option"
  body_articleBody :: "string option"
  body_status :: "string option"
  body_category :: "string option"
  body_tags :: "string option"

text \<open>\<open>req.user.id\<close>, \<open>req.file\<close> (the name of an uploaded file) and \<open>req.body\<close>.\<close>

record article_request =
  req_user :: nat
  req_file :: "string option"
  req_body :: body

text \<open>
  What \<open>Tags.create\<close> returns, as \<open>canTag\<close> tells the cases apart: \<open>false\<close>, \<open>null\<close>
  or an array of Tag rows.
\<close>

datatype tags_value = TFalse | TNull | TArray "tag_row list"

text \<open>
  The controller \<^verbatim>\<open>./Tags\<close> is not among the source files; the article controllers
  take its two functions as parameters. Both work on the Tag tables only.
  \<open>Tags.associateArticle\<close> returns the tag list of the response, or a falsy value.
\<close>

record tags_controller =
  Tags_create :: "string \<Rightarrow> tagstore \<Rightarrow> tags_value \<times> tagstore"
  Tags_associateArticle ::
    "nat \<Rightarrow> tag_row list option \<Rightarrow> tagstore \<Rightarrow> string list option \<times> tagstore"

text \<open>
  The helpers and libraries outside the controllers: \<open>sequelize-slugify\<close> (a slug from
  the title and the slugs in use), \<open>imageUpload\<close>, \<open>bcrypt.hash\<close> on a string,
  \<open>generateToken\<close>, \<open>expiryDate\<close>, \<open>verifyResetPasswordToken\<close> (the user id, if
  the token is good), \<open>Session.revokeAll\<close> and the helper \<open>userResponse\<close>.
\<close>

record env =
  slugify :: "string \<Rightarrow> string list \<Rightarrow> string"
  imageUpload :: "string \<Rightarrow> exn + string"
  bcrypt :: "string \<Rightarrow> nat \<Rightarrow> string"
  generateToken :: "nat \<Rightarrow> string \<Rightarrow> string"
  expiryDate :: "string \<Rightarrow> nat"
  verifyResetPasswordToken :: "string \<Rightarrow> nat option"
  revokeAll :: "nat \<Rightarrow> session_row list \<Rightarrow> session_row list"
  userResponse :: "nat \<Rightarrow> user_row \<Rightarrow> string \<Rightarrow> response"

text \<open>
  \<open>String.prototype.toLowerCase\<close> on text read as Latin-1: A to Z, and the capital
  letters U+00C0 to U+00DE but the multiplication sign U+00D7, move up by 32.
\<close>

definition lowerChar :: "char \<Rightarrow> char" where
  "lowerChar c =
     (let n = (of_char c :: nat)
      in if (65 \<le> n \<and> n \<le> 90) \<or> (192 \<le> n \<and> n \<le> 222 \<and> n \<noteq> 215)
         then char_of (n + 32) else c)"

definition toLowerCase :: "string \<Rightarrow> string" where
  "toLowerCase str = map lowerChar str"

text \<open>\<open>Category.findOne({ where: { name } })\<close>.\<close>

definition findCategory :: "string \<Rightarrow> db \<Rightarrow> category option" where
  "findCategory n s = find (\<lambda>c. name c = n) (categories s)"

text \<open>\<open>tags += `,${category}`\<close>: an absent \<open>tags\<close> is the text \<open>undefined\<close>.\<close>

definition appendCategory :: "string option \<Rightarrow> string \<Rightarrow> string" where
  "appendCategory tags category =
     (case tags of None \<Rightarrow> ''undefined'' | Some t \<Rightarrow> t) @ '','' @ category"

text \<open>
  Lines 127 to 135 of \<open>createArticle\<close> and 406 to 414 of \<open>update\<close>, on the lowercased
  category: look the category up, fall back to \<open>'other'\<close>, and add the category to the
  tags when the fallback was taken. Reading \<open>categoryDetails.name\<close> of \<open>null\<close> throws.
\<close>

definition categoryFallback ::
  "string \<Rightarrow> string option \<Rightarrow> db \<Rightarrow> exn + (category \<times> string option)" where
  "categoryFallback category tags s =
     (let categoryDetails =
        (case findCategory category s of
           None \<Rightarrow> findCategory ''other'' s
         | Some c \<Rightarrow> Some c)
      in case categoryDetails of
           None \<Rightarrow> Inl TypeError
         | Some d \<Rightarrow>
             if name d = ''other'' \<and> category \<noteq> ''other''
             then Inr (d, Some (appendCategory tags category))
             else Inr (d, tags))"

fun canTag :: "tags_value \<Rightarrow> (nat \<times> payload) option" where
  "canTag TFalse =
     Some (400, Error ''tags cannot be more than 15 and each tag must be more than a character'')"
| "canTag TNull = Some (400, Error ''tags should be an array of valid strings'')"
| "canTag (TArray []) = Some (400, Error ''tags should be an array of valid strings'')"
| "canTag (TArray (t # ts)) =
     (if tag_id t = 0 then Some (400, Error ''tags should be an array of valid strings'')
      else None)"

text \<open>
  \<open>if (tags) { createTags = await Tags.create(tags); const error = Articles.canTag(createTags);
  if (error) return serverResponse(res, error.status, error.message); }\<close>:
  the early response (\<open>Inl\<close>) or \<open>createTags\<close>, which stays undefined without tags.
  An empty text is falsy. \<open>canTag\<close> lets nothing but an array through, so the last case
  is never taken.
\<close>

definition createTagsStep ::
  "tags_controller \<Rightarrow> string option \<Rightarrow> tagstore \<Rightarrow> (response + tag_row list option) \<times> tagstore" where
  "createTagsStep TC tags ts =
     (case tags of
        None \<Rightarrow> (Inr None, ts)
      | Some t \<Rightarrow>
          if t = [] then (Inr None, ts)
          else
            (case Tags_create TC t ts of
               (createTags, ts') \<Rightarrow>
                 (case canTag createTags of
                    Some (st, message) \<Rightarrow> (Inl (serverResponse st message), ts')
                  | None \<Rightarrow>
                      (case createTags of
                         TArray rows \<Rightarrow> (Inr (Some rows), ts')
                       | _ \<Rightarrow> (Inr None, ts')))))"

text \<open>\<open>if (file) image = await imageUpload(req)\<close>.\<close>

definition uploadStep :: "env \<Rightarrow> string option \<Rightarrow> exn + string option" where
  "uploadStep E file =
     (case file of
        None \<Rightarrow> Inr None
      | Some f \<Rightarrow> (case imageUpload E f of Inl e \<Rightarrow> Inl e | Inr url \<Rightarrow> Inr (Some url)))"

text \<open>\<open>status === 'draft' || articleBody === undefined ? null : Date.now()\<close>.\<close>

definition publishedAtOf :: "body \<Rightarrow> nat \<Rightarrow> nat option" where
  "publishedAtOf b now =
     (if body_status b = Some ''draft'' \<or> body_articleBody b = None then None else Some now)"

text \<open>The validation of the model: a title is required, of 2 to 250 characters.\<close>

definition titleValid :: "string \<Rightarrow> bool" where
  "titleValid t \<longleftrightarrow> 2 \<le> length t \<and> length t \<le> 250"

definition defaultImage :: string where
  "defaultImage =
     ''http://res.cloudinary.com/teamrambo50/image/upload/v1565884519/fazaithupzfod35wxwys.png''"

definition nextId :: "nat list \<Rightarrow> nat" where
  "nextId ids = Suc (fold max ids 0)"

text \<open>
  \<open>Article.create({ ...body, image, authorId, publishedAt, categoryId })\<close>: the new row, or
  the validation error. The columns not given take their defaults; \<open>image\<close> of the spread
  body is overridden by the uploaded one, which is taken to be a URL.
\<close>

definition Article_create ::
  "env \<Rightarrow> body \<Rightarrow> string option \<Rightarrow> nat \<Rightarrow> nat option \<Rightarrow> nat \<Rightarrow> db \<Rightarrow> exn + article" where
  "Article_create E b img author pub cat s =
     (case body_title b of
        None \<Rightarrow> Inl ValidationError
      | Some t \<Rightarrow>
          if \<not> titleValid t then Inl ValidationError
          else Inr \<lparr>aid = nextId (map aid (articles s)),
                    slug = slugify E t (map slug (articles s)),
                    title = t,
                    description = body_description b,
                    image = (case img of None \<Rightarrow> defaultImage | Some url \<Rightarrow> url),
                    articleBody = body_articleBody b,
                    authorId = author,
                    categoryId = cat,
                    likesCount = 0,
                    dislikesCount = 0,
                    publishedAt = pub,
                    isArchived = False\<rparr>)"

definition createArticle ::
  "tags_controller \<Rightarrow> env \<Rightarrow> nat \<Rightarrow> article_request \<Rightarrow> db \<Rightarrow> outcome \<times> db" where
  "createArticle TC E now req s =
     (let b = req_body req in
      case body_category b of
        None \<Rightarrow> (tryCatch None (Inl TypeError), s)
      | Some c \<Rightarrow>
          (let category = toLowerCase c;
               pub = publishedAtOf b now
           in case categoryFallback category (body_tags b) s of
                Inl e \<Rightarrow> (tryCatch None (Inl e), s)
              | Inr (categoryDetails, tags) \<Rightarrow>
                  (case createTagsStep TC tags (tagTables s) of
                     (Inl r, ts1) \<Rightarrow> (tryCatch None (Inr r), s\<lparr>tagTables := ts1\<rparr>)
                   | (Inr createTags, ts1) \<Rightarrow>
                       (let s1 = s\<lparr>tagTables := ts1\<rparr>
                        in case uploadStep E (req_file req) of
                             Inl e \<Rightarrow> (tryCatch None (Inl e), s1)
                           | Inr img \<Rightarrow>
                               (case Article_create E b img (req_user req) pub (cid categoryDetails) s1 of
                                  Inl e \<Rightarrow> (tryCatch None (Inl e), s1)
                                | Inr myArticle \<Rightarrow>
                                    (let s2 = s1\<lparr>articles := articles s1 @ [myArticle]\<rparr>
                                     in case Tags_associateArticle TC (aid myArticle) createTags (tagTables s2) of
                                          (associateTags, ts2) \<Rightarrow>
                                            (tryCatch None
                                               (Inr (serverResponse 200
                                                 (ArticleValues myArticle
                                                    (case associateTags of None \<Rightarrow> [] | Some l \<Rightarrow> l)
                                                    (categoryId myArticle, name categoryDetails)))),
                                             s2\<lparr>tagTables := ts2\<rparr>)))))))"

text \<open>\<open>Object.keys(body).length === 0\<close>.\<close>

definition emptyBody :: "body \<Rightarrow> bool" where
  "emptyBody b \<longleftrightarrow>
     body_title b = None \<and> body_description b = None \<and> body_articleBody b = None \<and>
     body_status b = None \<and> body_category b = None \<and> body_tags b = None"

text \<open>
  \<open>Article.update({ ...body, publishedAt, image, categoryId }, { where: { slug, authorId },
  returning: true })\<close>: the rows changed and the new table, or the validation error of a
  title out of range. A value that is undefined leaves its column as it is.
\<close>

definition Article_update ::
  "body \<Rightarrow> nat option \<Rightarrow> string option \<Rightarrow> nat \<Rightarrow> string \<Rightarrow> nat \<Rightarrow> db \<Rightarrow> exn + (article list \<times> db)" where
  "Article_update b pub img cat sl author s =
     (let change = (\<lambda>a. a\<lparr>title := (case body_title b of None \<Rightarrow> title a | Some t \<Rightarrow> t),
                           description := (case body_description b of None \<Rightarrow> description a | Some d \<Rightarrow> Some d),
                           articleBody := (case body_articleBody b of None \<Rightarrow> articleBody a | Some x \<Rightarrow> Some x),
                           publishedAt := pub,
                           image := (case img of None \<Rightarrow> image a | Some url \<Rightarrow> url),
                           categoryId := cat\<rparr>);
          hit = (\<lambda>a. slug a = sl \<and> authorId a = author)
      in case body_title b of
           None \<Rightarrow>
             Inr (map change (filter hit (articles s)),
                  s\<lparr>articles := map (\<lambda>a. if hit a then change a else a) (articles s)\<rparr>)
         | Some t \<Rightarrow>
             if \<not> titleValid t then Inl ValidationError
             else Inr (map change (filter hit (articles s)),
                       s\<lparr>articles := map (\<lambda>a. if hit a then change a else a) (articles s)\<rparr>))"

text \<open>\<open>articleDetails.getTags()\<close>: the Tag rows joined to the article through \<open>ArticleTags\<close>.\<close>

definition getTags :: "nat \<Rightarrow> tagstore \<Rightarrow> tag_row list" where
  "getTags i ts = filter (\<lambda>t. (i, tag_id t) \<in> set (articleTags ts)) (tagRows ts)"

text \<open>
  Lines 404 to 416 of \<open>update\<close>: \<open>if (category) { ... articleDetails.categoryId =
  categoryDetails.id }\<close>. The result is the category id the article object then holds
  and the tags; an absent or empty category leaves both as they are.
\<close>

definition updateCategory ::
  "article \<Rightarrow> body \<Rightarrow> db \<Rightarrow> exn + (nat \<times> string option)" where
  "updateCategory articleDetails b s =
     (case body_category b of
        None \<Rightarrow> Inr (categoryId articleDetails, body_tags b)
      | Some c \<Rightarrow>
          if c = [] then Inr (categoryId articleDetails, body_tags b)
          else (case categoryFallback (toLowerCase c) (body_tags b) s of
                  Inl e \<Rightarrow> Inl e
                | Inr (categoryDetails, tags) \<Rightarrow> Inr (cid categoryDetails, tags)))"

text \<open>
  \<open>update\<close>. The answer to an empty body is sent without a \<open>return\<close>: the controller goes
  on with \<open>res\<close> already used. \<open>Tags.associateArticle\<close> is called inside \<open>if (tags)\<close>, after
  \<open>canTag\<close> has let the tags through.
\<close>

definition update ::
  "tags_controller \<Rightarrow> env \<Rightarrow> nat \<Rightarrow> string \<Rightarrow> article_request \<Rightarrow> db \<Rightarrow> outcome \<times> db" where
  "update TC E now sl req s =
     (let b = req_body req;
          res = (if emptyBody b
                 then Some (serverResponse 422 (Error ''request body should not be empty''))
                 else None)
      in case findBySlug sl s of
           None \<Rightarrow> (tryCatch res (Inr (serverResponse 404 (Error ''article not found''))), s)
         | Some articleDetails \<Rightarrow>
             if isArchived articleDetails
             then (tryCatch res (Inr (serverResponse 404 (Error ''article not found''))), s)
             else
               (case updateCategory articleDetails b s of
                  Inl e \<Rightarrow> (tryCatch res (Inl e), s)
                | Inr (cat, tags) \<Rightarrow>
                    (case createTagsStep TC tags (tagTables s) of
                       (Inl r, ts1) \<Rightarrow> (tryCatch res (Inr r), s\<lparr>tagTables := ts1\<rparr>)
                     | (Inr createTags, ts1) \<Rightarrow>
                         (let ts2 = (case createTags of
                                       None \<Rightarrow> ts1
                                     | Some rows \<Rightarrow>
                                         snd (Tags_associateArticle TC (aid articleDetails) (Some rows) ts1));
                              s1 = s\<lparr>tagTables := ts2\<rparr>
                          in case uploadStep E (req_file req) of
                               Inl e \<Rightarrow> (tryCatch res (Inl e), s1)
                             | Inr img \<Rightarrow>
                                 (case Article_update b (publishedAtOf b now) img cat sl (req_user req) s1 of
                                    Inl e \<Rightarrow> (tryCatch res (Inl e), s1)
                                  | Inr ([], s2) \<Rightarrow>
                                      (tryCatch res (Inr (serverResponse 403 (Message ''article not updated''))), s2)
                                  | Inr (updatedArticle # _, s2) \<Rightarrow>
                                      (tryCatch res
                                         (Inr (serverResponse 200
                                            (UpdatedValues updatedArticle
                                               (map tag_name (getTags (aid articleDetails) (tagTables s2)))
                                               (find (\<lambda>c. cid c = cat) (categories s2))))),
                                       s2))))))"

text \<open>\<open>userArticles\<close>: \<open>Article.findAndCountAll({ where: { authorId } })\<close>.\<close>

definition userArticles :: "nat \<Rightarrow> db \<Rightarrow> outcome \<times> db" where
  "userArticles u s =
     (let rows = filter (\<lambda>a. authorId a = u) (articles s)
      in (tryCatch None (Inr (serverResponse 200 (ArticlesPage (length rows) rows))), s))"

text \<open>
  \<open>authView\<close>, on the article \<open>viewArticle\<close> found (or null) and the user the token
  names. It has no \<open>try\<close> of its own.
\<close>

definition authView :: "nat \<Rightarrow> article option \<Rightarrow> outcome" where
  "authView u found =
     (case found of
        None \<Rightarrow> noCatch (Inr (serverResponse 404 (Error ''article not found'')))
      | Some a \<Rightarrow>
          if u = authorId a then noCatch (Inr (serverResponse 200 (ArticleOnly a)))
          else if isArchived a \<or> publishedAt a = None
          then noCatch (Inr (serverResponse 404 (Error ''article not found'')))
          else noCatch (Inr (serverResponse 200 (ArticleDetail a))))"

section \<open>Users\<close>

text \<open>
  A sign-up request: the fields of \<open>req.body\<close> the controller stores, \<open>req.ip\<close>, and what
  \<open>getUserAgent(req)\<close> reads from the headers.
\<close>

record signup_request =
  su_email :: string
  su_userName :: string
  su_password :: "string option"
  su_ip :: string
  su_userAgent :: string
  su_devicePlatform :: string

text \<open>\<open>User.findByEmail\<close> and \<open>User.findByUsername\<close>: the first row with that value, or null.\<close>

definition findByEmail :: "string \<Rightarrow> db \<Rightarrow> user_row option" where
  "findByEmail e s = find (\<lambda>u. email u = e) (users s)"

definition findByUsername :: "string \<Rightarrow> db \<Rightarrow> user_row option" where
  "findByUsername n s = find (\<lambda>u. userName u = n) (users s)"

text \<open>
  \<open>bcrypt.hash(password, rounds)\<close> of bcryptjs: a value that is not a string is refused
  (\<open>Illegal arguments\<close>), and the promise rejects.
\<close>

definition bcrypt_hash :: "env \<Rightarrow> string option \<Rightarrow> nat \<Rightarrow> exn + string" where
  "bcrypt_hash E p rounds =
     (case p of None \<Rightarrow> Inl BcryptError | Some pw \<Rightarrow> Inr (bcrypt E pw rounds))"

text \<open>
  The rows \<open>User.create({ ...req.body, password: hashedPassword })\<close> and \<open>Session.create\<close>
  add, shared by the two copies of \<open>Users.create\<close>.
\<close>

definition newUser :: "signup_request \<Rightarrow> string \<Rightarrow> db \<Rightarrow> user_row" where
  "newUser req hashedPassword s =
     \<lparr>uid = nextId (map uid (users s)), email = su_email req, userName = su_userName req,
      password = Some hashedPassword, verified = False\<rparr>"

definition newSession :: "env \<Rightarrow> signup_request \<Rightarrow> nat \<Rightarrow> string \<Rightarrow> session_row" where
  "newSession E req i token =
     \<lparr>session_userId = i, session_token = token,
      session_expiresAt = expiryDate E (su_devicePlatform req),
      session_userAgent = su_userAgent req, session_ipAddress = su_ip req,
      session_devicePlatform = su_devicePlatform req\<rparr>"

text \<open>
  \<open>Users.create\<close> of \<^verbatim>\<open>server/controllers/Users.js\<close>: \<open>delete user.dataValues.password\<close>
  comes before the response. The \<open>Authorization\<close> header and the verification email
  are left out: they change neither the tables nor the body.
\<close>

definition Users_create :: "env \<Rightarrow> signup_request \<Rightarrow> db \<Rightarrow> outcome \<times> db" where
  "Users_create E req s =
     (if findByEmail (su_email req) s \<noteq> None
      then (tryCatch None (Inr (serverResponse 409 (Error ''email has already been taken''))), s)
      else if findByUsername (su_userName req) s \<noteq> None
      then (tryCatch None (Inr (serverResponse 409 (Error ''username has already been taken''))), s)
      else
        (case bcrypt_hash E (su_password req) 10 of
           Inl e \<Rightarrow> (tryCatch None (Inl e), s)
         | Inr hashedPassword \<Rightarrow>
             (let user = newUser req hashedPassword s;
                  s1 = s\<lparr>users := users s @ [user]\<rparr>;
                  token = generateToken E (uid user) ''24h'';
                  s2 = s1\<lparr>sessions := sessions s1 @ [newSession E req (uid user) token]\<rparr>
              in (tryCatch None (Inr (serverResponse 201 (UserToken (user\<lparr>password := None\<rparr>) token))),
                  s2))))"

text \<open>
  \<open>Users.create\<close> of the copy of the controller that also holds the password
  operations, which answers through the helper \<open>userResponse\<close>.
\<close>

definition Users_create_userResponse :: "env \<Rightarrow> signup_request \<Rightarrow> db \<Rightarrow> outcome \<times> db" where
  "Users_create_userResponse E req s =
     (if findByEmail (su_email req) s \<noteq> None
      then (tryCatch None (Inr (serverResponse 409 (Error ''email has already been taken''))), s)
      else if findByUsername (su_userName req) s \<noteq> None
      then (tryCatch None (Inr (serverResponse 409 (Error ''username has already been taken''))), s)
      else
        (case bcrypt_hash E (su_password req) 10 of
           Inl e \<Rightarrow> (tryCatch None (Inl e), s)
         | Inr hashedPassword \<Rightarrow>
             (let user = newUser req hashedPassword s;
                  s1 = s\<lparr>users := users s @ [user]\<rparr>;
                  token = generateToken E (uid user) ''24h'';
                  s2 = s1\<lparr>sessions := sessions s1 @ [newSession E req (uid user) token]\<rparr>
              in (tryCatch None (Inr (userResponse E 201 user token)), s2))))"

text \<open>\<open>verifyUserEmail\<close>, on the row \<open>req.user\<close>.\<close>

definition verifyUserEmail :: "user_row \<Rightarrow> db \<Rightarrow> outcome \<times> db" where
  "verifyUserEmail user s =
     (if verified user
      then (tryCatch None (Inr (serverResponse 200 (Message ''email already verified''))), s)
      else (tryCatch None (Inr (serverResponse 200 (Message ''email verification successful''))),
            s\<lparr>users := map (\<lambda>u. if email u = email user then u\<lparr>verified := True\<rparr> else u) (users s)\<rparr>))"

definition resendVerificationEmail :: "string \<Rightarrow> db \<Rightarrow> outcome \<times> db" where
  "resendVerificationEmail e s =
     (case findByEmail e s of
        None \<Rightarrow> (tryCatch None (Inr (serverResponse 404 (Error ''user not found''))), s)
      | Some user \<Rightarrow>
          (tryCatch None (Inr (serverResponse 200 (Message ''email sent successfully''))), s))"

definition requestPasswordResetLink :: "env \<Rightarrow> string \<Rightarrow> db \<Rightarrow> outcome \<times> db" where
  "requestPasswordResetLink E e s =
     (case findByEmail e s of
        None \<Rightarrow> (tryCatch None (Inr (serverResponse 404 (Message ''email address not found''))), s)
      | Some user \<Rightarrow>
          (let token = generateToken E (uid user) ''1h'';
               s1 = s\<lparr>resetPasswords :=
                        resetPasswords s @ [\<lparr>reset_token = token, reset_userId = uid user\<rparr>]\<rparr>;
               s2 = s1\<lparr>sessions := revokeAll E (uid user) (sessions s1)\<rparr>
           in (tryCatch None (Inr (serverResponse 200 (Message ''password reset link sent''))), s2)))"

text \<open>\<open>User.update({ password }, { where: { id } })\<close> and \<open>User.updatePasswordById\<close>.\<close>

definition setPassword :: "nat \<Rightarrow> string \<Rightarrow> db \<Rightarrow> db" where
  "setPassword i h s =
     s\<lparr>users := map (\<lambda>u. if uid u = i then u\<lparr>password := Some h\<rparr> else u) (users s)\<rparr>"

text \<open>\<open>changePassword\<close>, on \<open>req.body.password\<close> and \<open>req.user.dataValues.id\<close>: no \<open>try\<close>.\<close>

definition changePassword :: "env \<Rightarrow> string option \<Rightarrow> nat \<Rightarrow> db \<Rightarrow> outcome \<times> db" where
  "changePassword E pw i s =
     (case bcrypt_hash E pw 10 of
        Inl e \<Rightarrow> (noCatch (Inl e), s)
      | Inr hashedPassword \<Rightarrow>
          (noCatch (Inr (serverResponse 200 (Message ''password changed successfully''))),
           setPassword i hashedPassword s))"

text \<open>\<open>resetPassword\<close>, on \<open>req.body.password\<close> and \<open>req.params.token\<close>.\<close>

definition resetPassword :: "env \<Rightarrow> string option \<Rightarrow> string \<Rightarrow> db \<Rightarrow> outcome \<times> db" where
  "resetPassword E pw token s =
     (case verifyResetPasswordToken E token of
        None \<Rightarrow> (tryCatch None (Inr (serverResponse 401 (Error ''link has expired or is invalid''))), s)
      | Some i \<Rightarrow>
          if i = 0
          then (tryCatch None (Inr (serverResponse 401 (Error ''link has expired or is invalid''))), s)
          else
            (case find (\<lambda>r. reset_token r = token) (resetPasswords s) of
               None \<Rightarrow> (tryCatch None (Inr (serverResponse 401 (Error ''link has been used''))), s)
             | Some resetToken \<Rightarrow>
                 (case bcrypt_hash E pw 10 of
                    Inl e \<Rightarrow> (tryCatch None (Inl e), s)
                  | Inr hashedPassword \<Rightarrow>
                      (let s1 = setPassword i hashedPassword s;
                           s2 = s1\<lparr>resetPasswords :=
                                    filter (\<lambda>r. reset_token r \<noteq> token) (resetPasswords s1)\<rparr>
                       in (tryCatch None (Inr (serverResponse 200 (Message ''password reset successful''))),
                           s2)))))"

section \<open>The Tags controller\<close>

text \<open>
  Modelled from the spec: the parts of \<open>Tags.create\<close> below. The text of the tags is
  split at its commas (\<open>String.prototype.split\<close>), and a tag is found by its name or
  added to the Tag table with the next id.
\<close>

fun splitOn :: "char \<Rightarrow> string \<Rightarrow> string list" where
  "splitOn c [] = [[]]"
| "splitOn c (x # xs) =
     (if x = c then [] # splitOn c xs
      else (case splitOn c xs of
              [] \<Rightarrow> [[x]]
            | w # ws \<Rightarrow> (x # w) # ws))"

definition findOrCreateTag :: "string \<Rightarrow> tagstore \<Rightarrow> tag_row \<times> tagstore" where
  "findOrCreateTag n ts =
     (case find (\<lambda>t. tag_name t = n) (tagRows ts) of
        Some t \<Rightarrow> (t, ts)
      | None \<Rightarrow>
          (let t = \<lparr>tag_id = nextId (map tag_id (tagRows ts)), tag_name = n\<rparr>
           in (t, ts\<lparr>tagRows := tagRows ts @ [t]\<rparr>)))"

fun findOrCreateTags :: "string list \<Rightarrow> tagstore \<Rightarrow> tag_row list \<times> tagstore" where
  "findOrCreateTags [] ts = ([], ts)"
| "findOrCreateTags (n # ns) ts =
     (case findOrCreateTag n ts of
        (t, ts1) \<Rightarrow> (case findOrCreateTags ns ts1 of (rows, ts2) \<Rightarrow> (t # rows, ts2)))"

text \<open>
  Modelled from the spec: \<open>Tags.create\<close> of the controller \<^verbatim>\<open>./Tags\<close>, which is not among
  the source files. The spec says that tags are deduplicated, capped at 15 and of minimum
  length 2; the message of \<open>canTag\<close> says that \<open>false\<close> stands for more than 15 tags or
  a tag of one character. The tags are the comma-separated parts of the text, without
  repetitions; a list that breaks a bound is refused with \<open>false\<close> and writes nothing;
  otherwise each tag is found by name or created.
\<close>

definition Tags_create_spec :: "string \<Rightarrow> tagstore \<Rightarrow> tags_value \<times> tagstore" where
  "Tags_create_spec tags ts =
     (let names = remdups (splitOn CHR '','' tags)
      in if 15 < length names \<or> (\<exists>n \<in> set names. length n < 2) then (TFalse, ts)
         else (case findOrCreateTags names ts of (rows, ts') \<Rightarrow> (TArray rows, ts')))"

text \<open>
  Modelled from the spec: \<open>Tags.associateArticle\<close> of the same controller. The spec says
  that an article is many-to-many with Tag and that its tag list is capped at 15; it does
  not say what becomes of earlier associations. Here the given tags replace them, which
  keeps the cap on the article's list, and their names are returned; without tags
  nothing is done and nothing returned.
\<close>

definition Tags_associateArticle_spec ::
  "nat \<Rightarrow> tag_row list option \<Rightarrow> tagstore \<Rightarrow> string list option \<times> tagstore" where
  "Tags_associateArticle_spec i createTags ts =
     (case createTags of
        None \<Rightarrow> (None, ts)
      | Some rows \<Rightarrow>
          (Some (map tag_name rows),
           ts\<lparr>articleTags :=
                filter (\<lambda>p. fst p \<noteq> i) (articleTags ts) @ map (\<lambda>t. (i, tag_id t)) rows\<rparr>))"

definition TagsSpec :: tags_controller where
  "TagsSpec =
     \<lparr>Tags_create = Tags_create_spec, Tags_associateArticle = Tags_associateArticle_spec\<rparr>"

text \<open>The bounds of the spec on a list of tag names.\<close>

definition tagListOk :: "string list \<Rightarrow> bool" where
  "tagListOk l \<longleftrightarrow> distinct l \<and> length l \<le> 15 \<and> (\<forall>n \<in> set l. 2 \<le> length n)"

text \<open>The keys of the Tag table: no two rows share an id, and no two share a name.\<close>

definition tagsWellFormed :: "tagstore \<Rightarrow> bool" where
  "tagsWellFormed ts \<longleftrightarrow>
     distinct (map tag_id (tagRows ts)) \<and> distinct (map tag_name (tagRows ts))"

text \<open>The message of \<open>canTag\<close> for the value \<open>false\<close>.\<close>

definition tooManyOrTooShort :: string where
  "tooManyOrTooShort = ''tags cannot be more than 15 and each tag must be more than a character''"

section \<open>All operations, and the shape of their responses\<close>

datatype call =
    CreateArticle article_request
  | Update string article_request
  | Reaction reaction_request
  | UserArticles nat
  | AuthView nat "article option"
  | UsersCreate signup_request
  | VerifyUserEmail user_row
  | ResendVerificationEmail string
  | RequestPasswordResetLink string
  | ChangePassword "string option" nat
  | ResetPassword "string option" string

fun serve :: "tags_controller \<Rightarrow> env \<Rightarrow> nat \<Rightarrow> call \<Rightarrow> db \<Rightarrow> outcome \<times> db" where
  "serve TC E now (CreateArticle req) s = createArticle TC E now req s"
| "serve TC E now (Update sl req) s = update TC E now sl req s"
| "serve TC E now (Reaction r) s = handle r s"
| "serve TC E now (UserArticles u) s = userArticles u s"
| "serve TC E now (AuthView u found) s = (authView u found, s)"
| "serve TC E now (UsersCreate req) s = Users_create E req s"
| "serve TC E now (VerifyUserEmail user) s = verifyUserEmail user s"
| "serve TC E now (ResendVerificationEmail e) s = resendVerificationEmail e s"
| "serve TC E now (RequestPasswordResetLink e) s = requestPasswordResetLink E e s"
| "serve TC E now (ChangePassword pw i) s = changePassword E pw i s"
| "serve TC E now (ResetPassword pw token) s = resetPassword E pw token s"

text \<open>The status codes the spec lists.\<close>

definition listedStatus :: "nat \<Rightarrow> bool" where
  "listedStatus n \<longleftrightarrow> n \<in> {200, 201, 401, 403, 404, 409, 422, 500}"

text \<open>Which body goes with which status in the controllers.\<close>

fun conventional :: "nat \<Rightarrow> payload \<Rightarrow> bool" where
  "conventional n (Error m) \<longleftrightarrow> n \<in> {400, 401, 404, 409, 422}"
| "conventional n ServerError \<longleftrightarrow> n = 500"
| "conventional n (Message m) \<longleftrightarrow> n \<in> {200, 403, 404}"
| "conventional n (MessageArticle m a) \<longleftrightarrow> n \<in> {200, 201}"
| "conventional n (ArticleValues a l c) \<longleftrightarrow> n = 200"
| "conventional n (UpdatedValues a l c) \<longleftrightarrow> n = 200"
| "conventional n (UserToken u t) \<longleftrightarrow> n = 201"
| "conventional n (ArticlesPage k l) \<longleftrightarrow> n = 200"
| "conventional n (ArticleOnly a) \<longleftrightarrow> n = 200"
| "conventional n (ArticleDetail a) \<longleftrightarrow> n = 200"

text \<open>The codes of the spec's list together with 400.\<close>

definition knownStatus :: "nat \<Rightarrow> bool" where
  "knownStatus n \<longleftrightarrow> n \<in> {200, 201, 400, 401, 403, 404, 409, 422, 500}"

text \<open>The request \<open>req\<close> with its category replaced by \<open>'other'\<close> and its tags by \<open>tags\<close>.\<close>

definition asOther :: "article_request \<Rightarrow> string \<Rightarrow> article_request" where
  "asOther req tags =
     req\<lparr>req_body := (req_body req)\<lparr>body_category := Some ''other'', body_tags := Some tags\<rparr>\<rparr>"

text \<open>The body \<open>{}\<close>.\<close>

definition noFields :: body where
  "noFields =
     \<lparr>body_title = None, body_description = None, body_articleBody = None,
      body_status = None, body_category = None, body_tags = None\<rparr>"

section \<open>An example database\<close>

definition exampleEnv :: env where
  "exampleEnv =
     \<lparr>slugify = (\<lambda>t used. map (\<lambda>c. if c = CHR '' '' then CHR ''-'' else c) t),
      imageUpload = (\<lambda>f. Inr (''http://images.example/'' @ f)),
      bcrypt = (\<lambda>pw rounds. ''$2a$10$'' @ rev pw),
      generateToken = (\<lambda>i ttl. ''token-'' @ ttl),
      expiryDate = (\<lambda>platform. 86400000),
      verifyResetPasswordToken = (\<lambda>t. if t = ''good'' then Some 1 else None),
      revokeAll = (\<lambda>i rows. filter (\<lambda>r. session_userId r \<noteq> i) rows),
      userResponse = (\<lambda>st u token. serverResponse st (UserToken (u\<lparr>password := None\<rparr>) token))\<rparr>"

definition firstPost :: article where
  "firstPost =
     \<lparr>aid = 1, slug = ''first-post'', title = ''First post'', description = None,
      image = defaultImage, articleBody = Some ''Hello'', authorId = 1, categoryId = 1,
      likesCount = 1, dislikesCount = 0, publishedAt = Some 1000, isArchived = False\<rparr>"

definition ann :: user_row where
  "ann = \<lparr>uid = 1, email = ''ann@example.com'', userName = ''ann'',
          password = Some ''$2a$10$terces'', verified = False\<rparr>"

definition exampleDb :: db where
  "exampleDb =
     \<lparr>articles = [firstPost],
      likes = [\<lparr>userId = 2, contentType = ''article'', contentId = 1\<rparr>],
      dislikes = [],
      categories = [\<lparr>cid = 1, name = ''tech''\<rparr>, \<lparr>cid = 2, name = ''other''\<rparr>],
      tagTables = \<lparr>tagRows = [\<lparr>tag_id = 1, tag_name = ''tech''\<rparr>], articleTags = [(1, 1)]\<rparr>,
      users = [ann],
      sessions = [],
      resetPasswords = []\<rparr>"

definition exampleBody :: body where
  "exampleBody =
     \<lparr>body_title = Some ''Second post'', body_description = None,
      body_articleBody = Some ''Text'', body_status = Some ''publish'',
      body_category = Some ''Sports'', body_tags = Some ''tech,news''\<rparr>"

definition exampleRequest :: article_request where
  "exampleRequest = \<lparr>req_user = 1, req_file = None, req_body = exampleBody\<rparr>"

definition exampleSignup :: signup_request where
  "exampleSignup =
     \<lparr>su_email = ''bob@example.com'', su_userName = ''bob'', su_password = Some ''secret'',
      su_ip = ''127.0.0.1'', su_userAgent = ''curl'', su_devicePlatform = ''browser''\<rparr>"

text \<open>What the example requests leave behind.\<close>

definition secondPost :: article where
  "secondPost =
     \<lparr>aid = 2, slug = ''Second-post'', title = ''Second post'', description = None,
      image = defaultImage, articleBody = Some ''Text'', authorId = 1, categoryId = 2,
      likesCount = 0, dislikesCount = 0, publishedAt = Some 5000, isArchived = False\<rparr>"

definition firstPostUpdated :: article where
  "firstPostUpdated =
     \<lparr>aid = 1, slug = ''first-post'', title = ''Second post'', description = None,
      image = defaultImage, articleBody = Some ''Text'', authorId = 1, categoryId = 2,
      likesCount = 1, dislikesCount = 0, publishedAt = Some 5000, isArchived = False\<rparr>"

definition threeTags :: "tag_row list" where
  "threeTags =
     [\<lparr>tag_id = 1, tag_name = ''tech''\<rparr>, \<lparr>tag_id = 2, tag_name = ''news''\<rparr>,
      \<lparr>tag_id = 3, tag_name = ''sports''\<rparr>]"

definition bob :: user_row where
  "bob = \<lparr>uid = 2, email = ''bob@example.com'', userName = ''bob'',
          password = Some ''$2a$10$terces'', verified = False\<rparr>"

text \<open>The example request with the one-character tag \<open>a\<close>, and with no field at all.\<close>

definition shortTagRequest :: article_request where
  "shortTagRequest = exampleRequest\<lparr>req_body := exampleBody\<lparr>body_tags := Some ''a''\<rparr>\<rparr>"

definition emptyRequest :: article_request where
  "emptyRequest = \<lparr>req_user = 1, req_file = None, req_body = noFields\<rparr>"

text \<open>A request of user 2, who is not the author of the first post, for a new title.\<close>

definition strangerRequest :: article_request where
  "strangerRequest =
     \<lparr>req_user = 2, req_file = None, req_body = noFields\<lparr>body_title := Some ''Mine now''\<rparr>\<rparr>"

section \<open>Likes and dislikes: counts and rows\<close>

lemma updateById_rows:
  "likes (updateById i f s) = likes s" "dislikes (updateById i f s) = dislikes s"
  by (simp_all add: updateById_def)

lemma countsAgree_createLikeOrDislike:
  "countsAgree s \<Longrightarrow> countsAgree (createLikeOrDislike act u a s)"
  unfolding countsAgree_def createLikeOrDislike_def updateById_def countLikes_def
    countDislikes_def ofArticle_def destroy_def newRow_def Let_def
  by (auto intro!: arg_cong[where f=length] filter_cong)

lemma countsAgree_removeLike: "countsAgree s \<Longrightarrow> countsAgree (snd (removeLike u sl s))"
  unfolding countsAgree_def removeLike_def updateById_def countLikes_def
    countDislikes_def ofArticle_def destroy_def Let_def
  by (auto split: option.splits intro!: arg_cong[where f=length] filter_cong)

lemma countsAgree_removeDislike: "countsAgree s \<Longrightarrow> countsAgree (snd (removeDislike u sl s))"
  unfolding countsAgree_def removeDislike_def updateById_def countLikes_def
    countDislikes_def ofArticle_def destroy_def Let_def
  by (auto split: option.splits intro!: arg_cong[where f=length] filter_cong)

lemma countsAgree_handle: "countsAgree s \<Longrightarrow> countsAgree (snd (handle r s))"
  by (cases r) (auto simp: addLike_def addDislike_def countsAgree_createLikeOrDislike
      countsAgree_removeLike countsAgree_removeDislike Let_def split: option.splits)

lemma countsAgree_handleAll: "countsAgree s \<Longrightarrow> countsAgree (handleAll rs s)"
  by (induction rs arbitrary: s) (auto simp: countsAgree_handle)

text \<open>What an operation recounts is right whatever the stored counts were before.\<close>

lemma removeLike_recounts:
  "findBySlug sl s = Some a \<Longrightarrow> x \<in> set (articles (snd (removeLike u sl s))) \<Longrightarrow> aid x = aid a
   \<Longrightarrow> likesCount x = int (countLikes x (snd (removeLike u sl s)))"
  unfolding removeLike_def updateById_def countLikes_def ofArticle_def destroy_def Let_def
  by (auto split: option.splits)

lemma removeDislike_recounts:
  "findBySlug sl s = Some a \<Longrightarrow> x \<in> set (articles (snd (removeDislike u sl s))) \<Longrightarrow> aid x = aid a
   \<Longrightarrow> dislikesCount x = int (countDislikes x (snd (removeDislike u sl s)))"
  unfolding removeDislike_def updateById_def countDislikes_def ofArticle_def destroy_def Let_def
  by (auto split: option.splits)

lemma createLikeOrDislike_recounts:
  "x \<in> set (articles (createLikeOrDislike act u a s)) \<Longrightarrow> aid x = aid a
   \<Longrightarrow> likesCount x = int (countLikes x (createLikeOrDislike act u a s)) \<and>
       dislikesCount x = int (countDislikes x (createLikeOrDislike act u a s))"
  unfolding createLikeOrDislike_def updateById_def countLikes_def countDislikes_def
    ofArticle_def destroy_def Let_def newRow_def
  by (auto split: option.splits)

text \<open>
  Claim C1. The four operations keep the stored counts of every article equal to the
  numbers of its Like and Dislike rows: if the counts agree with the rows before a
  request, or before a run of requests, they agree after it. Whatever the counts were
  before, removing a like leaves \<open>likesCount\<close> of the article equal to the number of its
  remaining Like rows, removing a dislike does the same for \<open>dislikesCount\<close>, and a like
  or dislike that is added leaves both counts of the article equal to its rows.
\<close>

theorem counts_agree_with_rows:
  "(countsAgree s \<longrightarrow> countsAgree (snd (handle r s)) \<and> countsAgree (handleAll rs s)) \<and>
   (findBySlug sl s = Some a \<longrightarrow>
      (\<forall>x \<in> set (articles (snd (removeLike u sl s))). aid x = aid a \<longrightarrow>
         likesCount x = int (countLikes x (snd (removeLike u sl s)))) \<and>
      (\<forall>x \<in> set (articles (snd (removeDislike u sl s))). aid x = aid a \<longrightarrow>
         dislikesCount x = int (countDislikes x (snd (removeDislike u sl s)))) \<and>
      (getLikes a u s = [] \<longrightarrow>
         (\<forall>x \<in> set (articles (snd (addLike u sl s))). aid x = aid a \<longrightarrow>
            likesCount x = int (countLikes x (snd (addLike u sl s))) \<and>
            dislikesCount x = int (countDislikes x (snd (addLike u sl s))))) \<and>
      (getDislikes a u s = [] \<longrightarrow>
         (\<forall>x \<in> set (articles (snd (addDislike u sl s))). aid x = aid a \<longrightarrow>
            likesCount x = int (countLikes x (snd (addDislike u sl s))) \<and>
            dislikesCount x = int (countDislikes x (snd (addDislike u sl s))))))"
proof -
  have inv: "countsAgree s \<longrightarrow> countsAgree (snd (handle r s)) \<and> countsAgree (handleAll rs s)"
    by (simp add: countsAgree_handle countsAgree_handleAll)
  have rl: "findBySlug sl s = Some a \<Longrightarrow> x \<in> set (articles (snd (removeLike u sl s))) \<Longrightarrow>
      aid x = aid a \<Longrightarrow> likesCount x = int (countLikes x (snd (removeLike u sl s)))" for x
    by (rule removeLike_recounts)
  have rd: "findBySlug sl s = Some a \<Longrightarrow> x \<in> set (articles (snd (removeDislike u sl s))) \<Longrightarrow>
      aid x = aid a \<Longrightarrow> dislikesCount x = int (countDislikes x (snd (removeDislike u sl s)))" for x
    by (rule removeDislike_recounts)
  have al: "findBySlug sl s = Some a \<Longrightarrow> getLikes a u s = [] \<Longrightarrow>
      x \<in> set (articles (snd (addLike u sl s))) \<Longrightarrow> aid x = aid a \<Longrightarrow>
      likesCount x = int (countLikes x (snd (addLike u sl s))) \<and>
      dislikesCount x = int (countDislikes x (snd (addLike u sl s)))" for x
    using createLikeOrDislike_recounts[of x "''like''" u a s]
    by (auto simp: addLike_def Let_def)
  have ad: "findBySlug sl s = Some a \<Longrightarrow> getDislikes a u s = [] \<Longrightarrow>
      x \<in> set (articles (snd (addDislike u sl s))) \<Longrightarrow> aid x = aid a \<Longrightarrow>
      likesCount x = int (countLikes x (snd (addDislike u sl s))) \<and>
      dislikesCount x = int (countDislikes x (snd (addDislike u sl s)))" for x
    using createLikeOrDislike_recounts[of x "''dislike''" u a s]
    by (auto simp: addDislike_def Let_def)
  from inv rl rd al ad show ?thesis by blast
qed

theorem counts_agree_with_rows_witness:
  "countsAgree exampleDb \<and>
   countsAgree (snd (handle (AddDislike 2 ''first-post'') exampleDb)) \<and>
   countsAgree (handleAll [AddLike 3 ''first-post'', RemoveLike 2 ''first-post''] exampleDb) \<and>
   findBySlug ''first-post'' exampleDb = Some firstPost \<and>
   articles (snd (removeLike 2 ''first-post'' exampleDb)) = [firstPost\<lparr>likesCount := 0\<rparr>] \<and>
   countLikes firstPost (snd (removeLike 2 ''first-post'' exampleDb)) = 0 \<and>
   getLikes firstPost 3 exampleDb = [] \<and>
   articles (snd (addLike 3 ''first-post'' exampleDb)) = [firstPost\<lparr>likesCount := 2\<rparr>] \<and>
   countLikes firstPost (snd (addLike 3 ''first-post'' exampleDb)) = 2 \<and>
   countDislikes firstPost (snd (addLike 3 ''first-post'' exampleDb)) = 0"
proof -
  have ok: "countsAgree exampleDb"
    by code_simp
  have found: "findBySlug ''first-post'' exampleDb = Some firstPost"
    by code_simp
  have fresh: "getLikes firstPost 3 exampleDb = []"
    by code_simp
  have removed: "articles (snd (removeLike 2 ''first-post'' exampleDb)) = [firstPost\<lparr>likesCount := 0\<rparr>]"
    by (simp add: removeLike_def findBySlug_def exampleDb_def firstPost_def Let_def
        updateById_def countLikes_def destroy_def ofArticle_def)
  have added: "articles (snd (addLike 3 ''first-post'' exampleDb)) = [firstPost\<lparr>likesCount := 2\<rparr>]"
    by (simp add: addLike_def findBySlug_def exampleDb_def firstPost_def Let_def getLikes_def
        createLikeOrDislike_def updateById_def countLikes_def countDislikes_def destroy_def
        ofArticle_def newRow_def)
  have a2: "aid (firstPost\<lparr>likesCount := 2\<rparr>) = aid firstPost"
       "likesCount (firstPost\<lparr>likesCount := 2\<rparr>) = 2"
       "dislikesCount (firstPost\<lparr>likesCount := 2\<rparr>) = 0"
       "aid (firstPost\<lparr>likesCount := 0\<rparr>) = aid firstPost"
       "likesCount (firstPost\<lparr>likesCount := 0\<rparr>) = 0"
    by (simp_all add: firstPost_def)
  have same: "countLikes (firstPost\<lparr>likesCount := n\<rparr>) t = countLikes firstPost t"
       "countDislikes (firstPost\<lparr>likesCount := n\<rparr>) t = countDislikes firstPost t" for n t
    by (simp_all add: countLikes_def countDislikes_def ofArticle_def [abs_def])
  from counts_agree_with_rows[of exampleDb "AddDislike 2 ''first-post''"
        "[AddLike 3 ''first-post'', RemoveLike 2 ''first-post'']" "''first-post''" firstPost 2]
      counts_agree_with_rows[of exampleDb "AddDislike 2 ''first-post''"
        "[AddLike 3 ''first-post'', RemoveLike 2 ''first-post'']" "''first-post''" firstPost 3]
      ok found fresh removed added
  show ?thesis
    by (simp add: a2 same)
qed

section \<open>Likes and dislikes: one row per user and article\<close>

lemma reactionsOf_bound:
  assumes "atMostOne s"
  shows "reactionsOf u i s \<le> 1"
proof (cases "reactionsOf u i s = 0")
  case True
  then show ?thesis by simp
next
  case False
  then have
    "filter (\<lambda>r. userId r = u \<and> contentType r = ''article'' \<and> contentId r = i) (likes s) \<noteq> [] \<or>
     filter (\<lambda>r. userId r = u \<and> contentType r = ''article'' \<and> contentId r = i) (dislikes s) \<noteq> []"
    by (auto simp: reactionsOf_def)
  then obtain r where "r \<in> set (likes s @ dislikes s)" "userId r = u" "contentId r = i"
    by (auto simp: filter_empty_conv)
  with assms show ?thesis
    unfolding atMostOne_def by blast
qed

lemma atMostOne_iff: "atMostOne s \<longleftrightarrow> (\<forall>u i. reactionsOf u i s \<le> 1)"
  using reactionsOf_bound by (auto simp: atMostOne_def)

lemma filter_destroy:
  "filter (\<lambda>r. userId r = v \<and> contentType r = ''article'' \<and> contentId r = i) (destroy u j rows) =
     (if v = u \<and> i = j then []
      else filter (\<lambda>r. userId r = v \<and> contentType r = ''article'' \<and> contentId r = i) rows)"
  by (auto simp: destroy_def filter_empty_conv intro: filter_cong)

lemma reactionsOf_createLike:
  "reactionsOf v i (createLikeOrDislike ''like'' u a s) =
     (if v = u \<and> i = aid a
      then Suc (length (filter (\<lambda>r. userId r = v \<and> contentType r = ''article'' \<and> contentId r = i) (likes s)))
      else reactionsOf v i s)"
  by (simp add: reactionsOf_def createLikeOrDislike_def Let_def filter_destroy newRow_def
      updateById_rows)

lemma reactionsOf_createDislike:
  "act \<noteq> ''like'' \<Longrightarrow> reactionsOf v i (createLikeOrDislike act u a s) =
     (if v = u \<and> i = aid a
      then Suc (length (filter (\<lambda>r. userId r = v \<and> contentType r = ''article'' \<and> contentId r = i) (dislikes s)))
      else reactionsOf v i s)"
  by (simp add: reactionsOf_def createLikeOrDislike_def Let_def filter_destroy newRow_def
      updateById_rows)

lemma getLikes_filter:
  "getLikes a u s =
     filter (\<lambda>r. userId r = u \<and> contentType r = ''article'' \<and> contentId r = aid a) (likes s)"
  by (auto simp: getLikes_def ofArticle_def intro: filter_cong)

lemma getDislikes_filter:
  "getDislikes a u s =
     filter (\<lambda>r. userId r = u \<and> contentType r = ''article'' \<and> contentId r = aid a) (dislikes s)"
  by (auto simp: getDislikes_def ofArticle_def intro: filter_cong)

lemma reactionsOf_addLike:
  "\<forall>v i. reactionsOf v i s \<le> 1 \<Longrightarrow> reactionsOf v i (snd (addLike u sl s)) \<le> 1"
  by (auto simp: addLike_def Let_def reactionsOf_createLike getLikes_filter split: option.splits)

lemma reactionsOf_addDislike:
  "\<forall>v i. reactionsOf v i s \<le> 1 \<Longrightarrow> reactionsOf v i (snd (addDislike u sl s)) \<le> 1"
  by (auto simp: addDislike_def Let_def reactionsOf_createDislike getDislikes_filter
      split: option.splits)

lemma reactionsOf_removeLike:
  "reactionsOf v i (snd (removeLike u sl s)) \<le> reactionsOf v i s"
  by (auto simp: removeLike_def Let_def reactionsOf_def filter_destroy updateById_rows
      split: option.splits)

lemma reactionsOf_removeDislike:
  "reactionsOf v i (snd (removeDislike u sl s)) \<le> reactionsOf v i s"
  by (auto simp: removeDislike_def Let_def reactionsOf_def filter_destroy updateById_rows
      split: option.splits)

lemma atMostOne_handle:
  assumes "atMostOne s"
  shows "atMostOne (snd (handle r s))"
proof -
  have all: "\<forall>v i. reactionsOf v i s \<le> 1"
    using assms by (simp add: atMostOne_iff)
  have "reactionsOf v i (snd (handle r s)) \<le> 1" for v i
  proof (cases r)
    case (AddLike u sl)
    then show ?thesis using reactionsOf_addLike[OF all] by simp
  next
    case (AddDislike u sl)
    then show ?thesis using reactionsOf_addDislike[OF all] by simp
  next
    case (RemoveLike u sl)
    then show ?thesis using le_trans[OF reactionsOf_removeLike] all by simp
  next
    case (RemoveDislike u sl)
    then show ?thesis using le_trans[OF reactionsOf_removeDislike] all by simp
  qed
  then show ?thesis by (simp add: atMostOne_iff)
qed

lemma atMostOne_handleAll: "atMostOne s \<Longrightarrow> atMostOne (handleAll rs s)"
  by (induction rs arbitrary: s) (auto simp: atMostOne_handle)

lemma addLike_swaps:
  "findBySlug sl s = Some a \<Longrightarrow> getLikes a u s = [] \<Longrightarrow>
     getDislikes a u (snd (addLike u sl s)) = [] \<and> length (getLikes a u (snd (addLike u sl s))) = 1"
  by (simp add: addLike_def Let_def getLikes_filter getDislikes_filter createLikeOrDislike_def
      filter_destroy newRow_def updateById_rows)

lemma addDislike_swaps:
  "findBySlug sl s = Some a \<Longrightarrow> getDislikes a u s = [] \<Longrightarrow>
     getLikes a u (snd (addDislike u sl s)) = [] \<and>
     length (getDislikes a u (snd (addDislike u sl s))) = 1"
  by (simp add: addDislike_def Let_def getLikes_filter getDislikes_filter createLikeOrDislike_def
      filter_destroy newRow_def updateById_rows)

text \<open>
  Claim C2. If no user holds more than one Like-or-Dislike row on any article, then the
  same is true after any of the four operations, and so after any sequence of them: every
  user \<open>v\<close> holds at most one row on every article \<open>i\<close>. A like that is added (the user had
  none on the article) leaves the user with exactly one Like row and no Dislike row on
  that article, the dislikes of the user on it having been deleted; and the same for an
  added dislike, with the two tables exchanged.
\<close>

theorem at_most_one_reaction:
  "(atMostOne s \<longrightarrow> atMostOne (snd (handle r s)) \<and> reactionsOf v i (handleAll rs s) \<le> 1) \<and>
   (findBySlug sl s = Some a \<and> getLikes a u s = [] \<longrightarrow>
      getDislikes a u (snd (addLike u sl s)) = [] \<and>
      length (getLikes a u (snd (addLike u sl s))) = 1) \<and>
   (findBySlug sl s = Some a \<and> getDislikes a u s = [] \<longrightarrow>
      getLikes a u (snd (addDislike u sl s)) = [] \<and>
      length (getDislikes a u (snd (addDislike u sl s))) = 1)"
  using atMostOne_handle[of s r] atMostOne_handleAll[of s rs]
    reactionsOf_bound[of "handleAll rs s" v i]
    addLike_swaps[of sl s a u] addDislike_swaps[of sl s a u]
  by blast

theorem at_most_one_reaction_witness:
  "atMostOne exampleDb \<and>
   atMostOne (snd (handle (AddDislike 2 ''first-post'') exampleDb)) \<and>
   reactionsOf 2 1 (handleAll [AddDislike 2 ''first-post'', AddLike 2 ''first-post''] exampleDb) \<le> 1 \<and>
   findBySlug ''first-post'' exampleDb = Some firstPost \<and>
   getLikes firstPost 3 exampleDb = [] \<and>
   getDislikes firstPost 3 (snd (addLike 3 ''first-post'' exampleDb)) = [] \<and>
   length (getLikes firstPost 3 (snd (addLike 3 ''first-post'' exampleDb))) = 1 \<and>
   getDislikes firstPost 3 exampleDb = [] \<and>
   getLikes firstPost 3 (snd (addDislike 3 ''first-post'' exampleDb)) = [] \<and>
   length (getDislikes firstPost 3 (snd (addDislike 3 ''first-post'' exampleDb))) = 1"
proof -
  have ok: "atMostOne exampleDb"
    by code_simp
  have found: "findBySlug ''first-post'' exampleDb = Some firstPost"
    by code_simp
  have fresh: "getLikes firstPost 3 exampleDb = []" "getDislikes firstPost 3 exampleDb = []"
    by code_simp+
  from at_most_one_reaction[of exampleDb "AddDislike 2 ''first-post''" 2 1
        "[AddDislike 2 ''first-post'', AddLike 2 ''first-post'']" "''first-post''" firstPost 3]
      ok found fresh
  show ?thesis by simp
qed

text \<open>
  Claim C3. When the user already has a Like row on the article the slug names, \<open>addLike\<close>
  answers 200 with the message \<open>you have already liked this article\<close> and leaves every
  table as it was: no row is added and no count changes. \<open>addDislike\<close> does the same for a
  user who already has a Dislike row, with the message \<open>you have already disliked this
  article\<close>.
\<close>

theorem already_reacted_is_answered_200:
  "(findBySlug sl s = Some a \<and>
    \<lparr>userId = u, contentType = ''article'', contentId = aid a\<rparr> \<in> set (likes s) \<longrightarrow>
      addLike u sl s =
        (\<lparr>sent = Some \<lparr>status = 200, payload = Message ''you have already liked this article''\<rparr>,
          escaped = None\<rparr>, s)) \<and>
   (findBySlug sl s = Some a \<and>
    \<lparr>userId = u, contentType = ''article'', contentId = aid a\<rparr> \<in> set (dislikes s) \<longrightarrow>
      addDislike u sl s =
        (\<lparr>sent = Some \<lparr>status = 200, payload = Message ''you have already disliked this article''\<rparr>,
          escaped = None\<rparr>, s))"
  by (auto simp: addLike_def addDislike_def getLikes_def getDislikes_def ofArticle_def
      filter_empty_conv tryCatch_def serverResponse_def)

theorem already_reacted_is_answered_200_witness:
  "findBySlug ''first-post'' exampleDb = Some firstPost \<and>
   \<lparr>userId = 2, contentType = ''article'', contentId = aid firstPost\<rparr> \<in> set (likes exampleDb) \<and>
   addLike 2 ''first-post'' exampleDb =
     (\<lparr>sent = Some \<lparr>status = 200, payload = Message ''you have already liked this article''\<rparr>,
       escaped = None\<rparr>, exampleDb) \<and>
   \<lparr>userId = 2, contentType = ''article'', contentId = aid firstPost\<rparr>
     \<in> set (dislikes (snd (addDislike 2 ''first-post'' exampleDb))) \<and>
   addDislike 2 ''first-post'' (snd (addDislike 2 ''first-post'' exampleDb)) =
     (\<lparr>sent = Some \<lparr>status = 200, payload = Message ''you have already disliked this article''\<rparr>,
       escaped = None\<rparr>, snd (addDislike 2 ''first-post'' exampleDb))"
proof -
  have found: "findBySlug ''first-post'' exampleDb = Some firstPost"
    by code_simp
  have liked: "\<lparr>userId = 2, contentType = ''article'', contentId = aid firstPost\<rparr> \<in> set (likes exampleDb)"
    by (simp add: exampleDb_def firstPost_def)
  have found': "findBySlug ''first-post'' (snd (addDislike 2 ''first-post'' exampleDb)) =
      Some (firstPost\<lparr>likesCount := 0, dislikesCount := 1\<rparr>)"
    by (simp add: addDislike_def findBySlug_def exampleDb_def firstPost_def Let_def getDislikes_def
        createLikeOrDislike_def updateById_def countLikes_def countDislikes_def destroy_def
        ofArticle_def newRow_def)
  have disliked: "\<lparr>userId = 2, contentType = ''article'', contentId = aid firstPost\<rparr>
      \<in> set (dislikes (snd (addDislike 2 ''first-post'' exampleDb)))"
    by (simp add: addDislike_def findBySlug_def exampleDb_def firstPost_def Let_def getDislikes_def
        createLikeOrDislike_def updateById_def destroy_def ofArticle_def newRow_def)
  have same: "aid (firstPost\<lparr>likesCount := 0, dislikesCount := 1\<rparr>) = aid firstPost"
    by simp
  from already_reacted_is_answered_200[of "''first-post''" exampleDb firstPost 2]
    already_reacted_is_answered_200[of "''first-post''" "snd (addDislike 2 ''first-post'' exampleDb)"
      "firstPost\<lparr>likesCount := 0, dislikesCount := 1\<rparr>" 2]
    found liked found' disliked same
  show ?thesis by simp
qed

section \<open>Creating and updating articles: what a request can lead to\<close>

lemma tryCatch_simps:
  "tryCatch (Some r0) x = \<lparr>sent = Some r0, escaped = Some HeadersSent\<rparr>"
  "tryCatch None (Inr r) = \<lparr>sent = Some r, escaped = None\<rparr>"
  "tryCatch None (Inl e) = \<lparr>sent = Some serverError, escaped = None\<rparr>"
  by (simp_all add: tryCatch_def)

lemma update_empty_sent:
  "emptyBody (req_body req) \<Longrightarrow>
     fst (update TC E now sl req s) =
       \<lparr>sent = Some (serverResponse 422 (Error ''request body should not be empty'')),
        escaped = Some HeadersSent\<rparr>"
  by (simp add: update_def Let_def tryCatch_simps(1)
      split: option.splits sum.splits prod.splits list.splits)

lemma createTagsStep_Inl:
  "createTagsStep TC tags ts = (Inl r, ts1) \<Longrightarrow> status r = 400 \<and> (\<exists>m. payload r = Error m)"
  unfolding createTagsStep_def
  by (auto simp: serverResponse_def split: option.splits if_splits prod.splits tags_value.splits
      elim!: canTag.elims)

lemma update_200:
  assumes "sent (fst (update TC E now sl req s)) = Some r" "status r = 200"
  obtains ad cat tags createTags ts1 img a rows s2 where
     "findBySlug sl s = Some ad" "\<not> isArchived ad" "\<not> emptyBody (req_body req)"
     "updateCategory ad (req_body req) s = Inr (cat, tags)"
     "createTagsStep TC tags (tagTables s) = (Inr createTags, ts1)"
     "uploadStep E (req_file req) = Inr img"
     "Article_update (req_body req) (publishedAtOf (req_body req) now) img cat sl (req_user req)
       (s\<lparr>tagTables := (case createTags of None \<Rightarrow> ts1
            | Some l \<Rightarrow> snd (Tags_associateArticle TC (aid ad) (Some l) ts1))\<rparr>) = Inr (a # rows, s2)"
     "payload r = UpdatedValues a (map tag_name (getTags (aid ad) (tagTables s2)))
                   (find (\<lambda>c. cid c = cat) (categories s2))"
     "snd (update TC E now sl req s) = s2"
proof -
  let ?b = "req_body req"
  note defs = update_def Let_def tryCatch_simps serverError_def serverResponse_def
  have ne: "\<not> emptyBody ?b"
    using assms update_empty_sent[of req TC E now sl s] by (auto simp: serverResponse_def)
  obtain ad where ad: "findBySlug sl s = Some ad"
    using assms ne by (cases "findBySlug sl s") (auto simp: defs)
  have na: "\<not> isArchived ad"
    using assms ne ad by (cases "isArchived ad") (auto simp: defs)
  obtain cat tags where c: "updateCategory ad ?b s = Inr (cat, tags)"
    using assms ne ad na by (cases "updateCategory ad ?b s") (auto simp: defs)
  obtain x ts1 where t: "createTagsStep TC tags (tagTables s) = (x, ts1)"
    by (cases "createTagsStep TC tags (tagTables s)")
  obtain createTags where x: "x = Inr createTags"
  proof (cases x)
    case (Inl r')
    with assms ne ad na c t have "r' = r" by (simp add: defs)
    with createTagsStep_Inl[of TC tags "tagTables s" r' ts1] t Inl assms(2) show ?thesis by simp
  next
    case (Inr v)
    then show ?thesis using that by simp
  qed
  let ?ts2 = "case createTags of None \<Rightarrow> ts1
            | Some l \<Rightarrow> snd (Tags_associateArticle TC (aid ad) (Some l) ts1)"
  obtain img where u: "uploadStep E (req_file req) = Inr img"
    using assms ne ad na c t x by (cases "uploadStep E (req_file req)") (auto simp: defs)
  let ?upd = "Article_update ?b (publishedAtOf ?b now) img cat sl (req_user req) (s\<lparr>tagTables := ?ts2\<rparr>)"
  have step: "update TC E now sl req s =
     (case ?upd of
        Inl e \<Rightarrow> (tryCatch None (Inl e), s\<lparr>tagTables := ?ts2\<rparr>)
      | Inr ([], s2) \<Rightarrow>
          (tryCatch None (Inr (serverResponse 403 (Message ''article not updated''))), s2)
      | Inr (updatedArticle # _, s2) \<Rightarrow>
          (tryCatch None
             (Inr (serverResponse 200
                (UpdatedValues updatedArticle
                   (map tag_name (getTags (aid ad) (tagTables s2)))
                   (find (\<lambda>c. cid c = cat) (categories s2))))),
           s2))"
    using ne ad na c t x u by (simp add: update_def Let_def)
  obtain rows0 s2 where a0: "?upd = Inr (rows0, s2)"
    using assms step by (cases ?upd) (auto simp: tryCatch_simps serverError_def)
  obtain a rows where rows: "rows0 = a # rows"
    using assms step a0 by (cases rows0) (auto simp: tryCatch_simps serverResponse_def)
  have fin: "payload r = UpdatedValues a (map tag_name (getTags (aid ad) (tagTables s2)))
                   (find (\<lambda>c. cid c = cat) (categories s2))"
     "snd (update TC E now sl req s) = s2"
    using assms step a0 rows by (auto simp: tryCatch_simps serverResponse_def)
  show ?thesis
    using that[OF ad na ne c t[unfolded x] u a0[unfolded rows] fin] .
qed

lemma conv_createArticle:
  "sent (fst (createArticle TC E now req s)) = Some r \<Longrightarrow> conventional (status r) (payload r)"
  unfolding createArticle_def Let_def
  by (auto simp: tryCatch_simps serverError_def serverResponse_def dest: createTagsStep_Inl
      split: option.splits sum.splits prod.splits)

lemma conv_tryCatch:
  "sent (tryCatch res x) = Some r \<Longrightarrow>
     (\<And>r0. res = Some r0 \<Longrightarrow> conventional (status r0) (payload r0)) \<Longrightarrow>
     (\<And>r1. x = Inr r1 \<Longrightarrow> conventional (status r1) (payload r1)) \<Longrightarrow>
     conventional (status r) (payload r)"
  by (cases res; cases x) (auto simp: tryCatch_simps serverError_def)

lemma conv_update:
  "sent (fst (update TC E now sl req s)) = Some r \<Longrightarrow> conventional (status r) (payload r)"
  unfolding update_def Let_def
  by (auto simp: serverResponse_def dest: createTagsStep_Inl elim!: conv_tryCatch
      split: option.splits sum.splits prod.splits list.splits if_splits)

lemma Article_update_rows:
  assumes "Article_update b pub img cat sl author s = Inr (rows, s2)"
  shows "(\<forall>x \<in> set (articles s2). slug x = sl \<and> authorId x = author \<longrightarrow>
            publishedAt x = pub \<and> categoryId x = cat) \<and>
         (\<forall>x \<in> set rows. slug x = sl \<and> authorId x = author \<and> publishedAt x = pub \<and> categoryId x = cat) \<and>
         tagTables s2 = tagTables s \<and> categories s2 = categories s"
proof -
  define change :: "article \<Rightarrow> article" where "change =
    (\<lambda>a. a\<lparr>title := (case body_title b of None \<Rightarrow> title a | Some t \<Rightarrow> t),
           description := (case body_description b of None \<Rightarrow> description a | Some d \<Rightarrow> Some d),
           articleBody := (case body_articleBody b of None \<Rightarrow> articleBody a | Some x \<Rightarrow> Some x),
           publishedAt := pub,
           image := (case img of None \<Rightarrow> image a | Some url \<Rightarrow> url),
           categoryId := cat\<rparr>)"
  define hit :: "article \<Rightarrow> bool" where "hit = (\<lambda>a. slug a = sl \<and> authorId a = author)"
  have unf: "Article_update b pub img cat sl author s =
     (case body_title b of
        None \<Rightarrow> Inr (map change (filter hit (articles s)),
                     s\<lparr>articles := map (\<lambda>a. if hit a then change a else a) (articles s)\<rparr>)
      | Some t \<Rightarrow>
          if \<not> titleValid t then Inl ValidationError
          else Inr (map change (filter hit (articles s)),
                    s\<lparr>articles := map (\<lambda>a. if hit a then change a else a) (articles s)\<rparr>))"
    unfolding Article_update_def Let_def change_def hit_def by (rule refl)
  have r: "rows = map change (filter hit (articles s))"
    and s2: "s2 = s\<lparr>articles := map (\<lambda>a. if hit a then change a else a) (articles s)\<rparr>"
    using assms unfolding unf by (cases "body_title b"; simp split: if_splits)+
  have ch: "slug (change a) = slug a" "authorId (change a) = authorId a"
    "publishedAt (change a) = pub" "categoryId (change a) = cat" for a
    by (simp_all add: change_def)
  have one: "publishedAt x = pub \<and> categoryId x = cat"
    if "x \<in> set (map (\<lambda>a. if hit a then change a else a) (articles s))"
      "slug x = sl \<and> authorId x = author" for x
  proof -
    from that(1) obtain a where a: "x = (if hit a then change a else a)"
      unfolding set_map by blast
    show ?thesis
    proof (cases "hit a")
      case True
      with a have "x = change a" by simp
      then show ?thesis by (simp add: ch)
    next
      case False
      with a have "x = a" by simp
      with that(2) False show ?thesis by (simp add: hit_def)
    qed
  qed
  have two: "slug x = sl \<and> authorId x = author \<and> publishedAt x = pub \<and> categoryId x = cat"
    if "x \<in> set (map change (filter hit (articles s)))" for x
  proof -
    from that obtain a where a: "x = change a" "a \<in> set (filter hit (articles s))"
      unfolding set_map by blast
    then have "hit a" by simp
    with a show ?thesis by (simp add: ch hit_def)
  qed
  from one two show ?thesis
    unfolding r s2 by simp
qed

lemma Article_create_fields:
  "Article_create E b img author pub cat s = Inr a \<Longrightarrow>
     publishedAt a = pub \<and> categoryId a = cat \<and> authorId a = author"
  by (auto simp: Article_create_def split: option.splits if_splits)

lemma createArticle_200:
  assumes "sent (fst (createArticle TC E now req s)) = Some r" "status r = 200"
  obtains c d tags createTags ts1 img a where
     "body_category (req_body req) = Some c"
     "categoryFallback (toLowerCase c) (body_tags (req_body req)) s = Inr (d, tags)"
     "createTagsStep TC tags (tagTables s) = (Inr createTags, ts1)"
     "uploadStep E (req_file req) = Inr img"
     "Article_create E (req_body req) img (req_user req) (publishedAtOf (req_body req) now) (cid d)
       (s\<lparr>tagTables := ts1\<rparr>) = Inr a"
     "payload r = ArticleValues a
       (case fst (Tags_associateArticle TC (aid a) createTags ts1) of None \<Rightarrow> [] | Some l \<Rightarrow> l)
       (categoryId a, name d)"
     "articles (snd (createArticle TC E now req s)) = articles s @ [a]"
proof -
  let ?b = "req_body req"
  note defs = createArticle_def Let_def tryCatch_def serverError_def serverResponse_def
  obtain c where c: "body_category ?b = Some c"
    using assms by (cases "body_category ?b") (auto simp: defs)
  obtain d tags where f: "categoryFallback (toLowerCase c) (body_tags ?b) s = Inr (d, tags)"
    using assms c
    by (cases "categoryFallback (toLowerCase c) (body_tags ?b) s") (auto simp: defs)
  obtain x ts1 where t: "createTagsStep TC tags (tagTables s) = (x, ts1)"
    by (cases "createTagsStep TC tags (tagTables s)")
  obtain createTags where x: "x = Inr createTags"
  proof (cases x)
    case (Inl r')
    with assms c f t have "r' = r" by (simp add: defs)
    with createTagsStep_Inl[of TC tags "tagTables s" r' ts1] t Inl assms(2) show ?thesis by simp
  next
    case (Inr v)
    then show ?thesis using that by simp
  qed
  obtain img where u: "uploadStep E (req_file req) = Inr img"
    using assms c f t x by (cases "uploadStep E (req_file req)") (auto simp: defs)
  obtain a where a: "Article_create E ?b img (req_user req) (publishedAtOf ?b now) (cid d)
       (s\<lparr>tagTables := ts1\<rparr>) = Inr a"
    using assms c f t x u
    by (cases "Article_create E ?b img (req_user req) (publishedAtOf ?b now) (cid d) (s\<lparr>tagTables := ts1\<rparr>)")
       (auto simp: defs)
  have fin: "payload r = ArticleValues a
       (case fst (Tags_associateArticle TC (aid a) createTags ts1) of None \<Rightarrow> [] | Some l \<Rightarrow> l)
       (categoryId a, name d) \<and>
     articles (snd (createArticle TC E now req s)) = articles s @ [a]"
    using assms c f t x u a
    by (auto simp: defs split: prod.splits option.splits)
  show ?thesis
    using that[OF c f t[unfolded x] u a conjunct1[OF fin] conjunct2[OF fin]] .
qed

lemma update_written:
  assumes "findBySlug sl s = Some ad" "\<not> isArchived ad"
    "updateCategory ad (req_body req) s = Inr (cat, tags)"
    "createTagsStep TC tags (tagTables s) = (Inr createTags, ts1)"
    "uploadStep E (req_file req) = Inr img"
    "Article_update (req_body req) (publishedAtOf (req_body req) now) img cat sl (req_user req)
       (s\<lparr>tagTables := (case createTags of None \<Rightarrow> ts1
            | Some l \<Rightarrow> snd (Tags_associateArticle TC (aid ad) (Some l) ts1))\<rparr>) = Inr (rows, s2)"
  shows "snd (update TC E now sl req s) = s2"
  using assms by (simp add: update_def Let_def split: list.splits)


section \<open>The example requests, evaluated\<close>

lemma lower_Sports: "toLowerCase ''Sports'' = ''sports''"
  by code_simp

lemmas example_defs =
  exampleRequest_def exampleBody_def exampleDb_def exampleEnv_def firstPost_def ann_def
  secondPost_def firstPostUpdated_def threeTags_def shortTagRequest_def emptyRequest_def
  strangerRequest_def noFields_def exampleSignup_def bob_def

lemmas article_defs =
  createArticle_def update_def lower_Sports publishedAtOf_def emptyBody_def updateCategory_def
  findBySlug_def categoryFallback_def findCategory_def appendCategory_def createTagsStep_def
  uploadStep_def Article_create_def Article_update_def titleValid_def nextId_def getTags_def
  tryCatch_def serverResponse_def Let_def

lemmas tags_defs =
  TagsSpec_def Tags_create_spec_def findOrCreateTag_def Tags_associateArticle_spec_def

lemma example_created:
  "createArticle TagsSpec exampleEnv 5000 exampleRequest exampleDb =
     (\<lparr>sent = Some \<lparr>status = 200,
                     payload = ArticleValues secondPost [''tech'', ''news'', ''sports''] (2, ''other'')\<rparr>,
       escaped = None\<rparr>,
      exampleDb\<lparr>articles := [firstPost, secondPost],
                tagTables := \<lparr>tagRows = threeTags,
                              articleTags = [(1, 1), (2, 1), (2, 2), (2, 3)]\<rparr>\<rparr>)"
  by (simp add: article_defs tags_defs example_defs)

lemma example_updated:
  "update TagsSpec exampleEnv 5000 ''first-post'' exampleRequest exampleDb =
     (\<lparr>sent = Some \<lparr>status = 200,
                     payload = UpdatedValues firstPostUpdated [''tech'', ''news'', ''sports'']
                                 (Some \<lparr>cid = 2, name = ''other''\<rparr>)\<rparr>,
       escaped = None\<rparr>,
      exampleDb\<lparr>articles := [firstPostUpdated],
                tagTables := \<lparr>tagRows = threeTags,
                              articleTags = [(1, 1), (1, 2), (1, 3)]\<rparr>\<rparr>)"
  by (simp add: article_defs tags_defs example_defs)

lemma example_short_tag:
  "createArticle TagsSpec exampleEnv 5000 shortTagRequest exampleDb =
     (\<lparr>sent = Some \<lparr>status = 400, payload = Error tooManyOrTooShort\<rparr>, escaped = None\<rparr>, exampleDb)"
  by (simp add: article_defs tags_defs example_defs tooManyOrTooShort_def)

lemma example_short_tag_update:
  "update TagsSpec exampleEnv 5000 ''first-post'' shortTagRequest exampleDb =
     (\<lparr>sent = Some \<lparr>status = 400, payload = Error tooManyOrTooShort\<rparr>, escaped = None\<rparr>, exampleDb)"
  by (simp add: article_defs tags_defs example_defs tooManyOrTooShort_def)

lemma example_stranger:
  "update TagsSpec exampleEnv 5000 ''first-post'' strangerRequest exampleDb =
     (\<lparr>sent = Some \<lparr>status = 403, payload = Message ''article not updated''\<rparr>, escaped = None\<rparr>,
      exampleDb)"
  by (simp add: article_defs tags_defs example_defs)

lemma example_empty:
  "update TagsSpec exampleEnv 5000 ''first-post'' emptyRequest exampleDb =
     (\<lparr>sent = Some \<lparr>status = 422, payload = Error ''request body should not be empty''\<rparr>,
       escaped = Some HeadersSent\<rparr>,
      exampleDb\<lparr>articles := [firstPost\<lparr>publishedAt := None\<rparr>]\<rparr>)"
  by (simp add: article_defs tags_defs example_defs)

lemma example_signup:
  "Users_create exampleEnv exampleSignup exampleDb =
     (\<lparr>sent = Some \<lparr>status = 201, payload = UserToken (bob\<lparr>password := None\<rparr>) ''token-24h''\<rparr>,
       escaped = None\<rparr>,
      exampleDb\<lparr>users := [ann, bob],
                sessions := [\<lparr>session_userId = 2, session_token = ''token-24h'',
                              session_expiresAt = 86400000, session_userAgent = ''curl'',
                              session_ipAddress = ''127.0.0.1'',
                              session_devicePlatform = ''browser''\<rparr>]\<rparr>)"
  by (simp add: Users_create_def findByEmail_def findByUsername_def bcrypt_hash_def newUser_def
      newSession_def nextId_def tryCatch_def serverResponse_def Let_def example_defs)


section \<open>Category fallback\<close>

lemma lower_other: "toLowerCase ''other'' = ''other''"
  by code_simp

lemma find_SomeD: "find P xs = Some x \<Longrightarrow> P x"
  by (induction xs) (simp_all split: if_splits)

lemma fallback_other:
  assumes "findCategory c s = None"
  shows "categoryFallback c tg s = categoryFallback ''other'' (Some (appendCategory tg c)) s"
proof (cases "findCategory ''other'' s")
  case None
  with assms show ?thesis by (simp add: categoryFallback_def)
next
  case (Some d)
  then have n: "name d = ''other''"
    unfolding findCategory_def by (rule find_SomeD)
  from Some assms have "c \<noteq> ''other''" by auto
  with Some assms n show ?thesis by (simp add: categoryFallback_def)
qed

lemma fallback_other_found:
  assumes "findCategory c s = None" "categoryFallback c tg s = Inr (d, tags)"
  shows "findCategory ''other'' s = Some d \<and> name d = ''other'' \<and> tags = Some (appendCategory tg c)"
proof (cases "findCategory ''other'' s")
  case None
  with assms show ?thesis by (simp add: categoryFallback_def)
next
  case (Some d')
  then have n: "name d' = ''other''"
    unfolding findCategory_def by (rule find_SomeD)
  from Some assms have "c \<noteq> ''other''" by auto
  with Some assms n show ?thesis by (simp add: categoryFallback_def)
qed

lemma create_as_other:
  assumes c: "body_category (req_body req) = Some c" and n: "findCategory (toLowerCase c) s = None"
  shows "createArticle TC E now req s =
         createArticle TC E now (asOther req (appendCategory (body_tags (req_body req)) (toLowerCase c))) s"
proof -
  let ?b = "req_body req"
  let ?t = "appendCategory (body_tags ?b) (toLowerCase c)"
  let ?b' = "?b\<lparr>body_category := Some ''other'', body_tags := Some ?t\<rparr>"
  have p: "publishedAtOf ?b' now = publishedAtOf ?b now"
    by (simp add: publishedAtOf_def)
  have a: "Article_create E ?b' = Article_create E ?b"
    by (simp add: Article_create_def fun_eq_iff split: option.splits)
  show ?thesis
    unfolding createArticle_def asOther_def
    by (simp add: c lower_other fallback_other[OF n] p a Let_def
        cong: sum.case_cong prod.case_cong option.case_cong)
qed

lemma update_as_other:
  assumes c: "body_category (req_body req) = Some c" "c \<noteq> []" and n: "findCategory (toLowerCase c) s = None"
  shows "update TC E now sl req s =
         update TC E now sl (asOther req (appendCategory (body_tags (req_body req)) (toLowerCase c))) s"
proof -
  let ?b = "req_body req"
  let ?t = "appendCategory (body_tags ?b) (toLowerCase c)"
  let ?b' = "?b\<lparr>body_category := Some ''other'', body_tags := Some ?t\<rparr>"
  have p: "publishedAtOf ?b' now = publishedAtOf ?b now"
    by (simp add: publishedAtOf_def)
  have a: "Article_update ?b' = Article_update ?b"
    by (simp add: Article_update_def fun_eq_iff Let_def split: option.splits)
  have e: "emptyBody ?b' = emptyBody ?b"
    using c by (simp add: emptyBody_def)
  have u: "updateCategory ad ?b' s = updateCategory ad ?b s" for ad
    using c by (simp add: updateCategory_def lower_other fallback_other[OF n])
  show ?thesis
    unfolding update_def asOther_def
    by (simp add: p a e u Let_def
        cong: sum.case_cong prod.case_cong option.case_cong list.case_cong if_cong)
qed

lemma updateCategory_fallback:
  assumes "body_category b = Some c" "c \<noteq> []" "updateCategory ad b s = Inr (cat, tags)"
  shows "\<exists>d. categoryFallback (toLowerCase c) (body_tags b) s = Inr (d, tags) \<and> cat = cid d"
  using assms by (auto simp: updateCategory_def split: sum.splits prod.splits)


text \<open>
  Claim C4, as amended. A \<open>createArticle\<close> request, or an \<open>update\<close> request with a
  non-empty category, whose lowercased category names no Category is handled exactly as
  the same request with category \<open>other\<close> and, when it carries tags, with those tags
  followed by a comma and the lowercased category name: the same response and the same
  database follow. When such a request is answered 200, a Category named \<open>other\<close> exists
  and is the category of the article: the new article, or every article the update wrote,
  holds its id.
\<close>

theorem unknown_category_is_handled_as_other:
  "(body_category (req_body req) = Some c \<and> body_tags (req_body req) = Some t \<and>
    findCategory (toLowerCase c) s = None \<longrightarrow>
      createArticle TC E now req s =
        createArticle TC E now (asOther req (t @ '','' @ toLowerCase c)) s \<and>
      (c \<noteq> [] \<longrightarrow>
         update TC E now sl req s =
           update TC E now sl (asOther req (t @ '','' @ toLowerCase c)) s)) \<and>
   (body_category (req_body req) = Some c \<and> findCategory (toLowerCase c) s = None \<and>
    sent (fst (createArticle TC E now req s)) = Some r \<and> status r = 200 \<longrightarrow>
      (\<exists>other a l.
         findCategory ''other'' s = Some other \<and>
         payload r = ArticleValues a l (cid other, ''other'') \<and>
         categoryId a = cid other \<and>
         a \<in> set (articles (snd (createArticle TC E now req s))))) \<and>
   (body_category (req_body req) = Some c \<and> c \<noteq> [] \<and> findCategory (toLowerCase c) s = None \<and>
    sent (fst (update TC E now sl req s)) = Some r \<and> status r = 200 \<longrightarrow>
      (\<exists>other a l k.
         findCategory ''other'' s = Some other \<and>
         payload r = UpdatedValues a l k \<and>
         categoryId a = cid other \<and>
         (\<forall>x \<in> set (articles (snd (update TC E now sl req s))).
            slug x = sl \<and> authorId x = req_user req \<longrightarrow> categoryId x = cid other)))"
proof -
  have A: "createArticle TC E now req s =
        createArticle TC E now (asOther req (t @ '','' @ toLowerCase c)) s \<and>
      (c \<noteq> [] \<longrightarrow>
         update TC E now sl req s =
           update TC E now sl (asOther req (t @ '','' @ toLowerCase c)) s)"
    if "body_category (req_body req) = Some c" "body_tags (req_body req) = Some t"
       "findCategory (toLowerCase c) s = None"
    using create_as_other[OF that(1,3), of TC E now]
      update_as_other[OF that(1) _ that(3), of TC E now sl] that(2)
    by (simp add: appendCategory_def)
  have B: "\<exists>other a l.
         findCategory ''other'' s = Some other \<and>
         payload r = ArticleValues a l (cid other, ''other'') \<and>
         categoryId a = cid other \<and>
         a \<in> set (articles (snd (createArticle TC E now req s)))"
    if c: "body_category (req_body req) = Some c" and n: "findCategory (toLowerCase c) s = None"
      and r: "sent (fst (createArticle TC E now req s)) = Some r" "status r = 200"
  proof -
    from r obtain c' d tags createTags ts1 img a where
      c': "body_category (req_body req) = Some c'"
      and f: "categoryFallback (toLowerCase c') (body_tags (req_body req)) s = Inr (d, tags)"
      and "createTagsStep TC tags (tagTables s) = (Inr createTags, ts1)"
      and "uploadStep E (req_file req) = Inr img"
      and a: "Article_create E (req_body req) img (req_user req) (publishedAtOf (req_body req) now) (cid d)
           (s\<lparr>tagTables := ts1\<rparr>) = Inr a"
      and pl: "payload r = ArticleValues a
           (case fst (Tags_associateArticle TC (aid a) createTags ts1) of None \<Rightarrow> [] | Some l \<Rightarrow> l)
           (categoryId a, name d)"
      and s': "articles (snd (createArticle TC E now req s)) = articles s @ [a]"
      by (rule createArticle_200)
    from c c' have "c' = c" by simp
    with f fallback_other_found[OF n] have d: "findCategory ''other'' s = Some d" "name d = ''other''"
      by simp_all
    from Article_create_fields[OF a] have "categoryId a = cid d" by simp
    with d pl s' show ?thesis by simp
  qed
  have C: "\<exists>other a l k.
         findCategory ''other'' s = Some other \<and>
         payload r = UpdatedValues a l k \<and>
         categoryId a = cid other \<and>
         (\<forall>x \<in> set (articles (snd (update TC E now sl req s))).
            slug x = sl \<and> authorId x = req_user req \<longrightarrow> categoryId x = cid other)"
    if c: "body_category (req_body req) = Some c" "c \<noteq> []"
      and n: "findCategory (toLowerCase c) s = None"
      and r: "sent (fst (update TC E now sl req s)) = Some r" "status r = 200"
  proof -
    from r obtain ad cat tags createTags ts1 img a rows s2 where
      "findBySlug sl s = Some ad" "\<not> isArchived ad" "\<not> emptyBody (req_body req)"
      and uc: "updateCategory ad (req_body req) s = Inr (cat, tags)"
      and "createTagsStep TC tags (tagTables s) = (Inr createTags, ts1)"
      and "uploadStep E (req_file req) = Inr img"
      and u: "Article_update (req_body req) (publishedAtOf (req_body req) now) img cat sl (req_user req)
       (s\<lparr>tagTables := (case createTags of None \<Rightarrow> ts1
            | Some l \<Rightarrow> snd (Tags_associateArticle TC (aid ad) (Some l) ts1))\<rparr>) = Inr (a # rows, s2)"
      and pl: "payload r = UpdatedValues a (map tag_name (getTags (aid ad) (tagTables s2)))
                   (find (\<lambda>c. cid c = cat) (categories s2))"
      and s2: "snd (update TC E now sl req s) = s2"
      by (rule update_200)
    from updateCategory_fallback[OF c uc] obtain d where
      f: "categoryFallback (toLowerCase c) (body_tags (req_body req)) s = Inr (d, tags)"
      and cat: "cat = cid d"
      by blast
    from fallback_other_found[OF n f] have d: "findCategory ''other'' s = Some d"
      by simp
    from Article_update_rows[OF u] have
      "\<forall>x \<in> set (articles s2). slug x = sl \<and> authorId x = req_user req \<longrightarrow> categoryId x = cid d"
      "categoryId a = cid d"
      unfolding cat by simp_all
    with d pl s2 show ?thesis by blast
  qed
  from A B C show ?thesis by blast
qed

theorem unknown_category_is_handled_as_other_witness:
  "body_category (req_body exampleRequest) = Some ''Sports'' \<and>
   body_tags (req_body exampleRequest) = Some ''tech,news'' \<and>
   findCategory (toLowerCase ''Sports'') exampleDb = None \<and>
   ''Sports'' \<noteq> [] \<and>
   createArticle TagsSpec exampleEnv 5000 exampleRequest exampleDb =
     createArticle TagsSpec exampleEnv 5000 (asOther exampleRequest ''tech,news,sports'') exampleDb \<and>
   update TagsSpec exampleEnv 5000 ''first-post'' exampleRequest exampleDb =
     update TagsSpec exampleEnv 5000 ''first-post'' (asOther exampleRequest ''tech,news,sports'') exampleDb \<and>
   sent (fst (createArticle TagsSpec exampleEnv 5000 exampleRequest exampleDb)) =
     Some \<lparr>status = 200,
           payload = ArticleValues secondPost [''tech'', ''news'', ''sports''] (2, ''other'')\<rparr> \<and>
   sent (fst (update TagsSpec exampleEnv 5000 ''first-post'' exampleRequest exampleDb)) =
     Some \<lparr>status = 200,
           payload = UpdatedValues firstPostUpdated [''tech'', ''news'', ''sports'']
                       (Some \<lparr>cid = 2, name = ''other''\<rparr>)\<rparr> \<and>
   findCategory ''other'' exampleDb = Some \<lparr>cid = 2, name = ''other''\<rparr> \<and>
   categoryId secondPost = 2 \<and> categoryId firstPostUpdated = 2"
proof -
  have h: "body_category (req_body exampleRequest) = Some ''Sports''"
    "body_tags (req_body exampleRequest) = Some ''tech,news''"
    "findCategory (toLowerCase ''Sports'') exampleDb = None"
    "findCategory ''other'' exampleDb = Some \<lparr>cid = 2, name = ''other''\<rparr>"
    "categoryId secondPost = 2" "categoryId firstPostUpdated = 2"
    by (simp_all add: lower_Sports findCategory_def example_defs)
  from unknown_category_is_handled_as_other[of exampleRequest "''Sports''" "''tech,news''"
      exampleDb TagsSpec exampleEnv 5000 "''first-post''"] h
  have "createArticle TagsSpec exampleEnv 5000 (asOther exampleRequest ''tech,news,sports'') exampleDb =
     createArticle TagsSpec exampleEnv 5000 exampleRequest exampleDb"
    "update TagsSpec exampleEnv 5000 ''first-post'' (asOther exampleRequest ''tech,news,sports'') exampleDb =
     update TagsSpec exampleEnv 5000 ''first-post'' exampleRequest exampleDb"
    by (simp_all add: lower_Sports)
  with h show ?thesis
    by (simp add: example_created example_updated)
qed

text \<open>
  The claim as stated fails for the category \<open>Sports\<close>: no Category is named \<open>sports\<close>,
  the fallback is taken, and the text handed to \<open>Tags.create\<close> ends in the lowercased
  \<open>sports\<close>. The original name \<open>Sports\<close> is not among the tags of the new article.
\<close>

theorem original_category_name_is_not_appended:
  "body_category (req_body exampleRequest) = Some ''Sports'' \<and>
   body_tags (req_body exampleRequest) = Some ''tech,news'' \<and>
   findCategory (toLowerCase ''Sports'') exampleDb = None \<and>
   categoryFallback (toLowerCase ''Sports'') (body_tags (req_body exampleRequest)) exampleDb =
     Inr (\<lparr>cid = 2, name = ''other''\<rparr>, Some ''tech,news,sports'') \<and>
   ''tech,news,sports'' \<noteq> ''tech,news,Sports'' \<and>
   sent (fst (createArticle TagsSpec exampleEnv 5000 exampleRequest exampleDb)) =
     Some \<lparr>status = 200,
           payload = ArticleValues secondPost [''tech'', ''news'', ''sports''] (2, ''other'')\<rparr> \<and>
   ''Sports'' \<notin> set [''tech'', ''news'', ''sports'']"
  by (simp add: example_created)
     (simp add: lower_Sports categoryFallback_def findCategory_def appendCategory_def example_defs)


section \<open>Tags\<close>

lemma find_Some_mem: "find P xs = Some x \<Longrightarrow> x \<in> set xs"
  by (induction xs) (simp_all split: if_splits)

lemma fold_max_bounds: "m \<le> fold max ids m \<and> (\<forall>x \<in> set ids. x \<le> fold max ids (m::nat))"
proof (induction ids arbitrary: m)
  case Nil
  show ?case by simp
next
  case (Cons a ids)
  from Cons[of "max a m"] show ?case by auto
qed

lemma nextId_fresh: "nextId ids \<notin> set ids"
  using fold_max_bounds[of 0 ids] by (auto simp: nextId_def)

lemma findOrCreateTag_name: "findOrCreateTag n ts = (t, ts1) \<Longrightarrow> tag_name t = n"
  by (auto simp: findOrCreateTag_def Let_def split: option.splits dest: find_SomeD)

lemma findOrCreateTags_names:
  "findOrCreateTags names ts = (rows, ts') \<Longrightarrow> map tag_name rows = names"
proof (induction names arbitrary: ts rows ts')
  case Nil
  then show ?case by simp
next
  case (Cons n names)
  obtain t ts1 where t: "findOrCreateTag n ts = (t, ts1)"
    by (cases "findOrCreateTag n ts")
  obtain rows' ts2 where r: "findOrCreateTags names ts1 = (rows', ts2)"
    by (cases "findOrCreateTags names ts1")
  from Cons.prems t r have "rows = t # rows'" by simp
  with Cons.IH[OF r] findOrCreateTag_name[OF t] show ?case by simp
qed

lemma Tags_create_spec_ok:
  assumes "Tags_create_spec tags ts = (TArray rows, ts')"
  shows "map tag_name rows = remdups (splitOn CHR '','' tags) \<and> tagListOk (map tag_name rows)"
proof -
  let ?names = "remdups (splitOn CHR '','' tags)"
  have ok: "\<not> (15 < length ?names \<or> (\<exists>n \<in> set ?names. length n < 2))"
    using assms by (auto simp: Tags_create_spec_def Let_def split: if_splits)
  then have "findOrCreateTags ?names ts = (rows, ts')"
    using assms by (auto simp: Tags_create_spec_def Let_def split: prod.splits)
  then have "map tag_name rows = ?names"
    by (rule findOrCreateTags_names)
  with ok show ?thesis
    by (auto simp: tagListOk_def simp del: set_remdups) 
qed

lemma Tags_create_spec_false:
  assumes "\<not> tagListOk (remdups (splitOn CHR '','' tags))"
  shows "Tags_create_spec tags ts = (TFalse, ts)"
  using assms by (auto simp: Tags_create_spec_def Let_def tagListOk_def not_le)

lemma createTagsStep_spec_ok:
  assumes "createTagsStep TagsSpec tags ts = (Inr (Some rows), ts1)"
  shows "tagListOk (map tag_name rows) \<and> rows \<noteq> [] \<and>
         (\<exists>tg. tags = Some tg \<and> tg \<noteq> [] \<and> Tags_create_spec tg ts = (TArray rows, ts1))"
proof -
  from assms obtain tg where tg: "tags = Some tg" "tg \<noteq> []"
    by (cases tags) (auto simp: createTagsStep_def split: if_splits)
  obtain v ts' where v: "Tags_create_spec tg ts = (v, ts')"
    by (cases "Tags_create_spec tg ts")
  from assms tg v have "v = TArray rows \<and> ts' = ts1 \<and> rows \<noteq> []"
    by (cases v; cases "canTag v")
       (auto simp: createTagsStep_def TagsSpec_def split: if_splits elim!: canTag.elims)
  then have r: "rows \<noteq> []" and c: "Tags_create_spec tg ts = (TArray rows, ts1)"
    using v by simp_all
  from Tags_create_spec_ok[OF c] have "tagListOk (map tag_name rows)" ..
  with r c tg show ?thesis by blast
qed

lemma createTagsStep_spec_false:
  assumes "tg \<noteq> []" "\<not> tagListOk (remdups (splitOn CHR '','' tg))"
  shows "createTagsStep TagsSpec (Some tg) ts = (Inl (serverResponse 400 (Error tooManyOrTooShort)), ts)"
  using assms Tags_create_spec_false[OF assms(2), of ts]
  by (simp add: createTagsStep_def TagsSpec_def tooManyOrTooShort_def)

lemma findOrCreateTag_wf:
  assumes "tagsWellFormed ts" "findOrCreateTag n ts = (t, ts1)"
  shows "t \<in> set (tagRows ts1) \<and> tagsWellFormed ts1 \<and> set (tagRows ts) \<subseteq> set (tagRows ts1)"
proof (cases "find (\<lambda>t. tag_name t = n) (tagRows ts)")
  case None
  let ?t = "\<lparr>tag_id = nextId (map tag_id (tagRows ts)), tag_name = n\<rparr>"
  from None assms(2) have e: "t = ?t" "ts1 = ts\<lparr>tagRows := tagRows ts @ [?t]\<rparr>"
    by (auto simp: findOrCreateTag_def Let_def)
  have "n \<notin> set (map tag_name (tagRows ts))"
    using None unfolding find_None_iff by auto
  moreover have "nextId (map tag_id (tagRows ts)) \<notin> set (map tag_id (tagRows ts))"
    by (rule nextId_fresh)
  ultimately show ?thesis
    using assms(1) unfolding e tagsWellFormed_def by auto
next
  case (Some x)
  with assms(2) have e: "t = x" "ts1 = ts"
    by (auto simp: findOrCreateTag_def)
  from Some have "x \<in> set (tagRows ts)"
    by (rule find_Some_mem)
  with assms(1) e show ?thesis by simp
qed

lemma findOrCreateTags_wf:
  "tagsWellFormed ts \<Longrightarrow> findOrCreateTags names ts = (rows, ts') \<Longrightarrow>
     set rows \<subseteq> set (tagRows ts') \<and> tagsWellFormed ts' \<and> set (tagRows ts) \<subseteq> set (tagRows ts')"
proof (induction names arbitrary: ts rows ts')
  case Nil
  then show ?case by simp
next
  case (Cons n names)
  obtain t ts1 where t: "findOrCreateTag n ts = (t, ts1)"
    by (cases "findOrCreateTag n ts")
  obtain rows' ts2 where r: "findOrCreateTags names ts1 = (rows', ts2)"
    by (cases "findOrCreateTags names ts1")
  from Cons.prems(2) t r have e: "rows = t # rows'" "ts' = ts2" by simp_all
  from findOrCreateTag_wf[OF Cons.prems(1) t] have
    1: "t \<in> set (tagRows ts1)" "tagsWellFormed ts1" "set (tagRows ts) \<subseteq> set (tagRows ts1)"
    by simp_all
  from Cons.IH[OF 1(2) r] have
    2: "set rows' \<subseteq> set (tagRows ts2)" "tagsWellFormed ts2" "set (tagRows ts1) \<subseteq> set (tagRows ts2)"
    by simp_all
  from 1 2 show ?case unfolding e by auto
qed

text \<open>The tags of an article after its associations were replaced by \<open>rows\<close>.\<close>

lemma getTags_after_replace:
  assumes wf: "tagsWellFormed ts" and sub: "set rows \<subseteq> set (tagRows ts)"
    and d: "distinct (map tag_name rows)"
  shows "distinct (map tag_name (getTags i (snd (Tags_associateArticle_spec i (Some rows) ts)))) \<and>
         set (map tag_name (getTags i (snd (Tags_associateArticle_spec i (Some rows) ts)))) =
           set (map tag_name rows)"
proof -
  let ?ts' = "snd (Tags_associateArticle_spec i (Some rows) ts)"
  have inj: "inj_on tag_id (set (tagRows ts))"
    using wf by (simp add: tagsWellFormed_def distinct_map)
  have mem: "t \<in> set (getTags i ?ts') \<longleftrightarrow> t \<in> set rows" for t
  proof
    assume "t \<in> set (getTags i ?ts')"
    then have t: "t \<in> set (tagRows ts)" and "(i, tag_id t) \<in> set (map (\<lambda>t. (i, tag_id t)) rows)"
      by (auto simp: getTags_def Tags_associateArticle_spec_def)
    then obtain r where r: "r \<in> set rows" "tag_id r = tag_id t"
      by auto
    with sub have "r \<in> set (tagRows ts)" by blast
    with inj t r(2) have "r = t" by (auto dest: inj_onD)
    with r(1) show "t \<in> set rows" by simp
  next
    assume "t \<in> set rows"
    with sub show "t \<in> set (getTags i ?ts')"
      by (auto simp: getTags_def Tags_associateArticle_spec_def)
  qed
  have "distinct (map tag_name (getTags i ?ts'))"
    using wf by (simp add: getTags_def Tags_associateArticle_spec_def tagsWellFormed_def
        distinct_map_filter)
  moreover have "set (getTags i ?ts') = set rows"
    using mem by blast
  ultimately show ?thesis by simp
qed

lemma tagListOk_same_set:
  assumes "tagListOk l" "distinct l'" "set l' = set l"
  shows "tagListOk l'"
proof -
  from assms have "length l' = length l"
    by (metis distinct_card tagListOk_def)
  with assms show ?thesis by (simp add: tagListOk_def)
qed

lemma Tags_create_spec_rows:
  assumes "Tags_create_spec tg ts = (TArray rows, ts1)"
  shows "findOrCreateTags (remdups (splitOn CHR '','' tg)) ts = (rows, ts1)"
  using assms by (auto simp: Tags_create_spec_def Let_def split: if_splits prod.splits)

lemma createTagsStep_nonempty:
  assumes "createTagsStep TC (Some tg) ts = (Inr ct, ts1)" "tg \<noteq> []"
  shows "\<exists>rows. ct = Some rows"
proof -
  obtain v ts' where v: "Tags_create TC tg ts = (v, ts')"
    by (cases "Tags_create TC tg ts")
  with assms show ?thesis
    by (cases v; cases "canTag v")
       (auto simp: createTagsStep_def split: if_splits elim!: canTag.elims)
qed

lemma categoryFallback_tags:
  "categoryFallback c tg s = Inr (d, tags) \<Longrightarrow> tags = tg \<or> tags = Some (appendCategory tg c)"
  by (auto simp: categoryFallback_def Let_def split: option.splits if_splits)

lemma updateCategory_tags:
  assumes u: "updateCategory ad b s = Inr (cat, tags)" and t: "body_tags b = Some t" "t \<noteq> []"
  shows "\<exists>tg. tags = Some tg \<and> tg \<noteq> []"
proof -
  have "tags = body_tags b \<or> (\<exists>c. tags = Some (appendCategory (body_tags b) c))"
  proof (cases "body_category b")
    case None
    with u show ?thesis by (simp add: updateCategory_def)
  next
    case (Some c)
    show ?thesis
    proof (cases "c = []")
      case True
      with Some u show ?thesis by (simp add: updateCategory_def)
    next
      case False
      with Some u obtain d where
        "categoryFallback (toLowerCase c) (body_tags b) s = Inr (d, tags)"
        by (auto simp: updateCategory_def split: sum.splits prod.splits)
      from categoryFallback_tags[OF this] show ?thesis by blast
    qed
  qed
  then show ?thesis
    using t by (auto simp: appendCategory_def)
qed

lemma updateCategory_not_empty:
  assumes "updateCategory ad b s = Inr (cat, Some tg)"
  shows "\<not> emptyBody b"
  using assms by (auto simp: updateCategory_def emptyBody_def)


text \<open>
  Claim C5, against \<open>Tags.create\<close> and \<open>Tags.associateArticle\<close> as modelled from the spec.
  The tag list of every 200 response of \<open>createArticle\<close> has no repetition, at most 15
  tags, and no tag shorter than 2; so has the tag list of every 200 response of an
  \<open>update\<close> that carries tags, when the Tag table has unique ids and names. A request
  that reaches the tags (its category resolves; for \<open>update\<close> the article is there and
  not archived) with a tag text that breaks the cap or the minimum length is answered 400
  with an error message, and the database stays as it was: no article is created or
  updated.
\<close>

theorem tags_are_bounded_or_refused:
  "(sent (fst (createArticle TagsSpec E now req s)) = Some r \<and> status r = 200 \<longrightarrow>
      (\<exists>a l c. payload r = ArticleValues a l c \<and> tagListOk l)) \<and>
   (sent (fst (update TagsSpec E now sl req s)) = Some r \<and> status r = 200 \<and>
    tagsWellFormed (tagTables s) \<and> body_tags (req_body req) = Some t \<and> t \<noteq> [] \<longrightarrow>
      (\<exists>a l c. payload r = UpdatedValues a l c \<and> tagListOk l)) \<and>
   (body_category (req_body req) = Some c \<and>
    categoryFallback (toLowerCase c) (body_tags (req_body req)) s = Inr (d, Some tg) \<and>
    tg \<noteq> [] \<and> \<not> tagListOk (remdups (splitOn CHR '','' tg)) \<longrightarrow>
      createArticle TagsSpec E now req s =
        (\<lparr>sent = Some \<lparr>status = 400, payload = Error tooManyOrTooShort\<rparr>, escaped = None\<rparr>, s)) \<and>
   (findBySlug sl s = Some ad \<and> \<not> isArchived ad \<and>
    updateCategory ad (req_body req) s = Inr (cat, Some tg) \<and>
    tg \<noteq> [] \<and> \<not> tagListOk (remdups (splitOn CHR '','' tg)) \<longrightarrow>
      update TagsSpec E now sl req s =
        (\<lparr>sent = Some \<lparr>status = 400, payload = Error tooManyOrTooShort\<rparr>, escaped = None\<rparr>, s))"
proof -
  have A: "\<exists>a l c. payload r = ArticleValues a l c \<and> tagListOk l"
    if "sent (fst (createArticle TagsSpec E now req s)) = Some r" "status r = 200"
  proof -
    from that obtain c d tags createTags ts1 img a where
      "body_category (req_body req) = Some c"
      "categoryFallback (toLowerCase c) (body_tags (req_body req)) s = Inr (d, tags)"
      and ct: "createTagsStep TagsSpec tags (tagTables s) = (Inr createTags, ts1)"
      and "uploadStep E (req_file req) = Inr img"
      and "Article_create E (req_body req) img (req_user req) (publishedAtOf (req_body req) now) (cid d)
           (s\<lparr>tagTables := ts1\<rparr>) = Inr a"
      and pl: "payload r = ArticleValues a
           (case fst (Tags_associateArticle TagsSpec (aid a) createTags ts1) of None \<Rightarrow> [] | Some l \<Rightarrow> l)
           (categoryId a, name d)"
      and "articles (snd (createArticle TagsSpec E now req s)) = articles s @ [a]"
      by (rule createArticle_200)
    have "tagListOk (case fst (Tags_associateArticle TagsSpec (aid a) createTags ts1) of
                       None \<Rightarrow> [] | Some l \<Rightarrow> l)"
    proof (cases createTags)
      case None
      then show ?thesis
        by (simp add: TagsSpec_def Tags_associateArticle_spec_def tagListOk_def)
    next
      case (Some rows)
      with createTagsStep_spec_ok[of tags "tagTables s" rows ts1] ct
      have "tagListOk (map tag_name rows)" by simp
      with Some show ?thesis
        by (simp add: TagsSpec_def Tags_associateArticle_spec_def)
    qed
    with pl show ?thesis by blast
  qed
  have B: "\<exists>a l c. payload r = UpdatedValues a l c \<and> tagListOk l"
    if r: "sent (fst (update TagsSpec E now sl req s)) = Some r" "status r = 200"
      and wf: "tagsWellFormed (tagTables s)"
      and t: "body_tags (req_body req) = Some t" "t \<noteq> []"
  proof -
    from r obtain ad cat tags createTags ts1 img a rows s2 where
      "findBySlug sl s = Some ad" "\<not> isArchived ad" "\<not> emptyBody (req_body req)"
      and uc: "updateCategory ad (req_body req) s = Inr (cat, tags)"
      and ct: "createTagsStep TagsSpec tags (tagTables s) = (Inr createTags, ts1)"
      and "uploadStep E (req_file req) = Inr img"
      and u: "Article_update (req_body req) (publishedAtOf (req_body req) now) img cat sl (req_user req)
       (s\<lparr>tagTables := (case createTags of None \<Rightarrow> ts1
            | Some l \<Rightarrow> snd (Tags_associateArticle TagsSpec (aid ad) (Some l) ts1))\<rparr>) = Inr (a # rows, s2)"
      and pl: "payload r = UpdatedValues a (map tag_name (getTags (aid ad) (tagTables s2)))
                   (find (\<lambda>c. cid c = cat) (categories s2))"
      and "snd (update TagsSpec E now sl req s) = s2"
      by (rule update_200)
    from updateCategory_tags[OF uc t] obtain tg where tg: "tags = Some tg" "tg \<noteq> []"
      by blast
    from createTagsStep_nonempty[OF ct[unfolded tg(1)] tg(2)] obtain trs where
      trs: "createTags = Some trs" by blast
    from createTagsStep_spec_ok[OF ct[unfolded trs]] tg have
      ok: "tagListOk (map tag_name trs)" and cr: "Tags_create_spec tg (tagTables s) = (TArray trs, ts1)"
      by auto
    from findOrCreateTags_wf[OF wf Tags_create_spec_rows[OF cr]] have
      wf1: "tagsWellFormed ts1" and sub: "set trs \<subseteq> set (tagRows ts1)"
      by simp_all
    from ok have dn: "distinct (map tag_name trs)"
      by (simp add: tagListOk_def)
    have ts: "tagTables s2 = snd (Tags_associateArticle_spec (aid ad) (Some trs) ts1)"
      using Article_update_rows[OF u] trs by (simp add: TagsSpec_def)
    from getTags_after_replace[OF wf1 sub dn, of "aid ad"] have
      "tagListOk (map tag_name (getTags (aid ad) (tagTables s2)))"
      unfolding ts using tagListOk_same_set[OF ok] by blast
    with pl show ?thesis by blast
  qed
  have C: "createArticle TagsSpec E now req s =
        (\<lparr>sent = Some \<lparr>status = 400, payload = Error tooManyOrTooShort\<rparr>, escaped = None\<rparr>, s)"
    if "body_category (req_body req) = Some c"
       "categoryFallback (toLowerCase c) (body_tags (req_body req)) s = Inr (d, Some tg)"
       "tg \<noteq> []" "\<not> tagListOk (remdups (splitOn CHR '','' tg))"
    using that createTagsStep_spec_false[OF that(3,4), of "tagTables s"]
    by (simp add: createArticle_def Let_def tryCatch_simps serverResponse_def)
  have D: "update TagsSpec E now sl req s =
        (\<lparr>sent = Some \<lparr>status = 400, payload = Error tooManyOrTooShort\<rparr>, escaped = None\<rparr>, s)"
    if "findBySlug sl s = Some ad" "\<not> isArchived ad"
       "updateCategory ad (req_body req) s = Inr (cat, Some tg)"
       "tg \<noteq> []" "\<not> tagListOk (remdups (splitOn CHR '','' tg))"
    using that createTagsStep_spec_false[OF that(4,5), of "tagTables s"]
      updateCategory_not_empty[OF that(3)]
    by (simp add: update_def Let_def tryCatch_simps serverResponse_def)
  from A B C D show ?thesis by blast
qed

theorem tags_are_bounded_or_refused_witness:
  "sent (fst (createArticle TagsSpec exampleEnv 5000 exampleRequest exampleDb)) =
     Some \<lparr>status = 200,
           payload = ArticleValues secondPost [''tech'', ''news'', ''sports''] (2, ''other'')\<rparr> \<and>
   sent (fst (update TagsSpec exampleEnv 5000 ''first-post'' exampleRequest exampleDb)) =
     Some \<lparr>status = 200,
           payload = UpdatedValues firstPostUpdated [''tech'', ''news'', ''sports'']
                       (Some \<lparr>cid = 2, name = ''other''\<rparr>)\<rparr> \<and>
   tagsWellFormed (tagTables exampleDb) \<and>
   body_tags (req_body exampleRequest) = Some ''tech,news'' \<and>
   tagListOk [''tech'', ''news'', ''sports''] \<and>
   body_category (req_body shortTagRequest) = Some ''Sports'' \<and>
   categoryFallback (toLowerCase ''Sports'') (body_tags (req_body shortTagRequest)) exampleDb =
     Inr (\<lparr>cid = 2, name = ''other''\<rparr>, Some ''a,sports'') \<and>
   findBySlug ''first-post'' exampleDb = Some firstPost \<and>
   \<not> isArchived firstPost \<and>
   updateCategory firstPost (req_body shortTagRequest) exampleDb = Inr (2, Some ''a,sports'') \<and>
   \<not> tagListOk (remdups (splitOn CHR '','' ''a,sports'')) \<and>
   createArticle TagsSpec exampleEnv 5000 shortTagRequest exampleDb =
     (\<lparr>sent = Some \<lparr>status = 400, payload = Error tooManyOrTooShort\<rparr>, escaped = None\<rparr>, exampleDb) \<and>
   update TagsSpec exampleEnv 5000 ''first-post'' shortTagRequest exampleDb =
     (\<lparr>sent = Some \<lparr>status = 400, payload = Error tooManyOrTooShort\<rparr>, escaped = None\<rparr>, exampleDb)"
proof -
  have h: "tagsWellFormed (tagTables exampleDb)"
    "body_tags (req_body exampleRequest) = Some ''tech,news''"
    "body_category (req_body shortTagRequest) = Some ''Sports''"
    "categoryFallback (toLowerCase ''Sports'') (body_tags (req_body shortTagRequest)) exampleDb =
       Inr (\<lparr>cid = 2, name = ''other''\<rparr>, Some ''a,sports'')"
    "findBySlug ''first-post'' exampleDb = Some firstPost"
    "\<not> isArchived firstPost"
    "updateCategory firstPost (req_body shortTagRequest) exampleDb = Inr (2, Some ''a,sports'')"
    "\<not> tagListOk (remdups (splitOn CHR '','' ''a,sports''))"
    by (simp_all add: tagsWellFormed_def tagListOk_def article_defs example_defs)
  have r: "status \<lparr>status = 200,
           payload = ArticleValues secondPost [''tech'', ''news'', ''sports''] (2, ''other'')\<rparr> = 200"
    "status \<lparr>status = 200,
           payload = UpdatedValues firstPostUpdated [''tech'', ''news'', ''sports'']
                       (Some \<lparr>cid = 2, name = ''other''\<rparr>)\<rparr> = 200"
    by simp_all
  from tags_are_bounded_or_refused[of exampleEnv 5000 exampleRequest exampleDb
      "\<lparr>status = 200,
        payload = ArticleValues secondPost [''tech'', ''news'', ''sports''] (2, ''other'')\<rparr>"
      "''first-post''" "''tech,news''" "''Sports''" "\<lparr>cid = 2, name = ''other''\<rparr>" "''a,sports''"]
    example_created r
  have ok: "tagListOk [''tech'', ''news'', ''sports'']"
    by simp
  from tags_are_bounded_or_refused[of exampleEnv 5000 shortTagRequest exampleDb _
      "''first-post''" _ "''Sports''" "\<lparr>cid = 2, name = ''other''\<rparr>" "''a,sports''" firstPost 2] h
  have "createArticle TagsSpec exampleEnv 5000 shortTagRequest exampleDb =
     (\<lparr>sent = Some \<lparr>status = 400, payload = Error tooManyOrTooShort\<rparr>, escaped = None\<rparr>, exampleDb)"
    "update TagsSpec exampleEnv 5000 ''first-post'' shortTagRequest exampleDb =
     (\<lparr>sent = Some \<lparr>status = 400, payload = Error tooManyOrTooShort\<rparr>, escaped = None\<rparr>, exampleDb)"
    by simp_all
  with h ok show ?thesis
    by (simp add: example_created example_updated)
qed


section \<open>Users\<close>

text \<open>
  Claim C6. When the email of a sign-up request is the email of a row of the User table,
  \<open>Users.create\<close> (in either copy of the controller) answers 409 with the error
  \<open>email has already been taken\<close> and leaves every table as it was: no User row and no
  Session row is created.
\<close>

theorem taken_email_is_answered_409:
  "u0 \<in> set (users s) \<and> email u0 = su_email req \<longrightarrow>
     Users_create E req s =
       (\<lparr>sent = Some \<lparr>status = 409, payload = Error ''email has already been taken''\<rparr>,
         escaped = None\<rparr>, s) \<and>
     Users_create_userResponse E req s =
       (\<lparr>sent = Some \<lparr>status = 409, payload = Error ''email has already been taken''\<rparr>,
         escaped = None\<rparr>, s)"
proof
  assume "u0 \<in> set (users s) \<and> email u0 = su_email req"
  then have "findByEmail (su_email req) s \<noteq> None"
    unfolding findByEmail_def find_None_iff by blast
  then show "Users_create E req s =
       (\<lparr>sent = Some \<lparr>status = 409, payload = Error ''email has already been taken''\<rparr>,
         escaped = None\<rparr>, s) \<and>
     Users_create_userResponse E req s =
       (\<lparr>sent = Some \<lparr>status = 409, payload = Error ''email has already been taken''\<rparr>,
         escaped = None\<rparr>, s)"
    by (simp add: Users_create_def Users_create_userResponse_def tryCatch_simps serverResponse_def)
qed


theorem taken_email_is_answered_409_witness:
  "ann \<in> set (users exampleDb) \<and>
   email ann = su_email (exampleSignup\<lparr>su_email := ''ann@example.com''\<rparr>) \<and>
   Users_create exampleEnv (exampleSignup\<lparr>su_email := ''ann@example.com''\<rparr>) exampleDb =
     (\<lparr>sent = Some \<lparr>status = 409, payload = Error ''email has already been taken''\<rparr>,
       escaped = None\<rparr>, exampleDb) \<and>
   Users_create_userResponse exampleEnv (exampleSignup\<lparr>su_email := ''ann@example.com''\<rparr>) exampleDb =
     (\<lparr>sent = Some \<lparr>status = 409, payload = Error ''email has already been taken''\<rparr>,
       escaped = None\<rparr>, exampleDb)"
proof -
  have h: "ann \<in> set (users exampleDb)"
    "email ann = su_email (exampleSignup\<lparr>su_email := ''ann@example.com''\<rparr>)"
    by (simp_all add: exampleDb_def ann_def)
  from taken_email_is_answered_409[of ann exampleDb
      "exampleSignup\<lparr>su_email := ''ann@example.com''\<rparr>" exampleEnv] h
  show ?thesis by simp
qed

text \<open>
  Claim C10. Every sign-up answered 201 by \<open>Users.create\<close> of
  \<^verbatim>\<open>server/controllers/Users.js\<close> has added one User row whose password is the value
  \<open>bcrypt.hash\<close> returned for the submitted password with 10 rounds, and the user object of
  the response is that row without a password. A request with a new email, a new user
  name and a password is answered so; the second copy of the controller stores the same
  row.
\<close>

theorem password_is_stored_hashed:
  "(sent (fst (Users_create E req s)) = Some r \<and> status r = 201 \<longrightarrow>
     (\<exists>user token pw.
        payload r = UserToken user token \<and> password user = None \<and>
        su_password req = Some pw \<and>
        users (snd (Users_create E req s)) = users s @ [user\<lparr>password := Some (bcrypt E pw 10)\<rparr>])) \<and>
   (findByEmail (su_email req) s = None \<and> findByUsername (su_userName req) s = None \<and>
    su_password req = Some pw \<longrightarrow>
      (\<exists>user token.
         sent (fst (Users_create E req s)) = Some \<lparr>status = 201, payload = UserToken user token\<rparr> \<and>
         password user = None \<and>
         users (snd (Users_create E req s)) = users s @ [user\<lparr>password := Some (bcrypt E pw 10)\<rparr>] \<and>
         users (snd (Users_create_userResponse E req s)) =
           users s @ [user\<lparr>password := Some (bcrypt E pw 10)\<rparr>]))"
  by (auto simp: Users_create_def Users_create_userResponse_def tryCatch_simps serverResponse_def
      serverError_def bcrypt_hash_def Let_def newUser_def split: if_splits option.splits)


theorem password_is_stored_hashed_witness:
  "findByEmail (su_email exampleSignup) exampleDb = None \<and>
   findByUsername (su_userName exampleSignup) exampleDb = None \<and>
   su_password exampleSignup = Some ''secret'' \<and>
   sent (fst (Users_create exampleEnv exampleSignup exampleDb)) =
     Some \<lparr>status = 201, payload = UserToken (bob\<lparr>password := None\<rparr>) ''token-24h''\<rparr> \<and>
   password (bob\<lparr>password := None\<rparr>) = None \<and>
   users (snd (Users_create exampleEnv exampleSignup exampleDb)) = [ann, bob] \<and>
   password bob = Some (bcrypt exampleEnv ''secret'' 10) \<and>
   bcrypt exampleEnv ''secret'' 10 \<noteq> ''secret''"
proof -
  have h: "findByEmail (su_email exampleSignup) exampleDb = None"
    "findByUsername (su_userName exampleSignup) exampleDb = None"
    "su_password exampleSignup = Some ''secret''"
    "password bob = Some (bcrypt exampleEnv ''secret'' 10)"
    "bcrypt exampleEnv ''secret'' 10 \<noteq> ''secret''"
    by (simp_all add: findByEmail_def findByUsername_def example_defs)
  from password_is_stored_hashed[of exampleEnv exampleSignup exampleDb
      "\<lparr>status = 201, payload = UserToken (bob\<lparr>password := None\<rparr>) ''token-24h''\<rparr>" "''secret''"] h
  show ?thesis
    by (simp add: example_signup)
qed

text \<open>
  Claim C7 fails on the code. \<open>changePassword\<close> has no \<open>try\<close>/\<open>catch\<close>: when the request
  body has no password, \<open>bcrypt.hash\<close> rejects, no response is sent and the exception
  leaves the controller. And an \<open>update\<close> with an empty body answers 422 and goes on, so
  that the next send throws inside the \<open>try\<close> and again inside the \<open>catch\<close>, and that
  exception leaves the controller too.
\<close>

theorem changePassword_lets_the_exception_out:
  "changePassword E None i s = (\<lparr>sent = None, escaped = Some BcryptError\<rparr>, s) \<and>
   fst (update TC E now sl (req\<lparr>req_body := noFields\<rparr>) s) =
     \<lparr>sent = Some \<lparr>status = 422, payload = Error ''request body should not be empty''\<rparr>,
      escaped = Some HeadersSent\<rparr>"
  using update_empty_sent[of "req\<lparr>req_body := noFields\<rparr>" TC E now sl s]
  by (simp add: changePassword_def bcrypt_hash_def noCatch_def noFields_def emptyBody_def
      serverResponse_def)


section \<open>Responses\<close>

lemma conv_known: "conventional n p \<Longrightarrow> knownStatus n"
  by (cases p) (auto simp: knownStatus_def)

lemma conv_handle:
  "sent (fst (handle q s)) = Some r \<Longrightarrow> conventional (status r) (payload r)"
  by (cases q)
     (auto simp: addLike_def addDislike_def removeLike_def removeDislike_def Let_def
        tryCatch_simps serverResponse_def customArticleResponse_def split: option.splits if_splits)

lemma conv_userArticles:
  "sent (fst (userArticles u s)) = Some r \<Longrightarrow> conventional (status r) (payload r)"
  by (auto simp: userArticles_def Let_def tryCatch_simps serverResponse_def)

lemma conv_authView:
  "sent (authView u found) = Some r \<Longrightarrow> conventional (status r) (payload r)"
  by (auto simp: authView_def noCatch_def serverResponse_def split: option.splits if_splits)

lemma conv_Users_create:
  "sent (fst (Users_create E req s)) = Some r \<Longrightarrow> conventional (status r) (payload r)"
  by (auto simp: Users_create_def Let_def tryCatch_simps serverResponse_def serverError_def
      split: if_splits sum.splits)

lemma conv_verifyUserEmail:
  "sent (fst (verifyUserEmail user s)) = Some r \<Longrightarrow> conventional (status r) (payload r)"
  by (auto simp: verifyUserEmail_def tryCatch_simps serverResponse_def split: if_splits)

lemma conv_resendVerificationEmail:
  "sent (fst (resendVerificationEmail e s)) = Some r \<Longrightarrow> conventional (status r) (payload r)"
  by (auto simp: resendVerificationEmail_def tryCatch_simps serverResponse_def split: option.splits)

lemma conv_requestPasswordResetLink:
  "sent (fst (requestPasswordResetLink E e s)) = Some r \<Longrightarrow> conventional (status r) (payload r)"
  by (auto simp: requestPasswordResetLink_def Let_def tryCatch_simps serverResponse_def
      split: option.splits)

lemma conv_changePassword:
  "sent (fst (changePassword E pw i s)) = Some r \<Longrightarrow> conventional (status r) (payload r)"
  by (auto simp: changePassword_def noCatch_def serverResponse_def split: sum.splits)

lemma conv_resetPassword:
  "sent (fst (resetPassword E pw token s)) = Some r \<Longrightarrow> conventional (status r) (payload r)"
  by (auto simp: resetPassword_def Let_def tryCatch_simps serverResponse_def serverError_def
      split: option.splits if_splits sum.splits)


text \<open>
  Claim C8, as amended. Every response of the operations of the two controllers has a
  status among 200, 201, 400, 401, 403, 404, 409, 422 and 500, and a body that goes with
  it: \<open>{ error }\<close> with 400, 401, 404, 409 and 422, the generic error with 500,
  \<open>{ message }\<close> with 200, 403 and 404, \<open>{ message, article }\<close> with 200 and 201, the values
  of the article with 200, \<open>{ user, token }\<close> with 201, and \<open>{ articles }\<close> or the article
  with 200.
\<close>

theorem responses_are_conventional:
  "sent (fst (serve TC E now c s)) = Some r \<longrightarrow>
     conventional (status r) (payload r) \<and> knownStatus (status r)"
proof
  assume a: "sent (fst (serve TC E now c s)) = Some r"
  have "conventional (status r) (payload r)"
  proof (cases c)
    case (CreateArticle req)
    with a show ?thesis using conv_createArticle by simp
  next
    case (Update sl req)
    with a show ?thesis using conv_update by simp
  next
    case (Reaction q)
    with a show ?thesis using conv_handle by simp
  next
    case (UserArticles u)
    with a show ?thesis using conv_userArticles by simp
  next
    case (AuthView u found)
    with a show ?thesis using conv_authView by simp
  next
    case (UsersCreate req)
    with a show ?thesis using conv_Users_create by simp
  next
    case (VerifyUserEmail user)
    with a show ?thesis using conv_verifyUserEmail by simp
  next
    case (ResendVerificationEmail e)
    with a show ?thesis using conv_resendVerificationEmail by simp
  next
    case (RequestPasswordResetLink e)
    with a show ?thesis using conv_requestPasswordResetLink by simp
  next
    case (ChangePassword pw i)
    with a show ?thesis using conv_changePassword by simp
  next
    case (ResetPassword pw token)
    with a show ?thesis using conv_resetPassword by simp
  qed
  then show "conventional (status r) (payload r) \<and> knownStatus (status r)"
    using conv_known by blast
qed


theorem responses_are_conventional_witness:
  "sent (fst (serve TagsSpec exampleEnv 5000 (CreateArticle shortTagRequest) exampleDb)) =
     Some \<lparr>status = 400, payload = Error tooManyOrTooShort\<rparr> \<and>
   conventional 400 (Error tooManyOrTooShort) \<and> knownStatus 400"
proof -
  have h: "sent (fst (serve TagsSpec exampleEnv 5000 (CreateArticle shortTagRequest) exampleDb)) =
     Some \<lparr>status = 400, payload = Error tooManyOrTooShort\<rparr>"
    by (simp add: example_short_tag)
  from responses_are_conventional[of TagsSpec exampleEnv 5000 "CreateArticle shortTagRequest"
      exampleDb "\<lparr>status = 400, payload = Error tooManyOrTooShort\<rparr>"] h
  show ?thesis by simp
qed

text \<open>
  The claim as stated fails: tags that \<open>canTag\<close> refuses are answered 400, which is not
  among the codes the spec lists; and an \<open>update\<close> by a user who is not the author fails
  with 403 and a \<open>{ message }\<close> body, not \<open>{ error }\<close>.
\<close>

theorem status_400_is_sent:
  "sent (fst (createArticle TagsSpec exampleEnv 5000 shortTagRequest exampleDb)) =
     Some \<lparr>status = 400, payload = Error tooManyOrTooShort\<rparr> \<and>
   canTag TFalse = Some (400, Error tooManyOrTooShort) \<and>
   \<not> listedStatus 400 \<and>
   sent (fst (update TagsSpec exampleEnv 5000 ''first-post'' strangerRequest exampleDb)) =
     Some \<lparr>status = 403, payload = Message ''article not updated''\<rparr>"
  by (simp add: example_short_tag example_stranger listedStatus_def tooManyOrTooShort_def)


section \<open>Publication time\<close>

text \<open>
  Claim C9. The article a \<open>createArticle\<close> answered 200 has stored, and every article an
  \<open>update\<close> answered 200 has written, has \<open>publishedAt\<close> null when the status of the
  request body is \<open>draft\<close> or its \<open>articleBody\<close> is absent, and the current time
  otherwise: the value comes from the request body alone. Even an \<open>update\<close> with an empty
  body, which names neither field, sets \<open>publishedAt\<close> of the article to null.
\<close>

theorem publishedAt_follows_request_body:
  "(sent (fst (createArticle TC E now req s)) = Some r \<and> status r = 200 \<longrightarrow>
      (\<exists>a l c. payload r = ArticleValues a l c \<and>
         a \<in> set (articles (snd (createArticle TC E now req s))) \<and>
         publishedAt a =
           (if body_status (req_body req) = Some ''draft'' \<or> body_articleBody (req_body req) = None
            then None else Some now))) \<and>
   (sent (fst (update TC E now sl req s)) = Some r \<and> status r = 200 \<longrightarrow>
      (\<exists>a l c. payload r = UpdatedValues a l c \<and>
         publishedAt a =
           (if body_status (req_body req) = Some ''draft'' \<or> body_articleBody (req_body req) = None
            then None else Some now) \<and>
         (\<forall>x \<in> set (articles (snd (update TC E now sl req s))).
            slug x = sl \<and> authorId x = req_user req \<longrightarrow>
            publishedAt x =
              (if body_status (req_body req) = Some ''draft'' \<or> body_articleBody (req_body req) = None
               then None else Some now)))) \<and>
   (emptyBody (req_body req) \<and> findBySlug sl s = Some ad \<and> \<not> isArchived ad \<and> req_file req = None \<longrightarrow>
      (\<forall>x \<in> set (articles (snd (update TC E now sl req s))).
         slug x = sl \<and> authorId x = req_user req \<longrightarrow> publishedAt x = None))"
proof -
  let ?pub = "if body_status (req_body req) = Some ''draft'' \<or> body_articleBody (req_body req) = None
            then None else Some now"
  have p: "publishedAtOf (req_body req) now = ?pub"
    by (simp add: publishedAtOf_def)
  have A: "\<exists>a l c. payload r = ArticleValues a l c \<and>
         a \<in> set (articles (snd (createArticle TC E now req s))) \<and> publishedAt a = ?pub"
    if "sent (fst (createArticle TC E now req s)) = Some r" "status r = 200"
  proof -
    from that obtain c d tags createTags ts1 img a where
      "body_category (req_body req) = Some c"
      "categoryFallback (toLowerCase c) (body_tags (req_body req)) s = Inr (d, tags)"
      "createTagsStep TC tags (tagTables s) = (Inr createTags, ts1)"
      "uploadStep E (req_file req) = Inr img"
      and a: "Article_create E (req_body req) img (req_user req) (publishedAtOf (req_body req) now) (cid d)
           (s\<lparr>tagTables := ts1\<rparr>) = Inr a"
      and pl: "payload r = ArticleValues a
           (case fst (Tags_associateArticle TC (aid a) createTags ts1) of None \<Rightarrow> [] | Some l \<Rightarrow> l)
           (categoryId a, name d)"
      and s': "articles (snd (createArticle TC E now req s)) = articles s @ [a]"
      by (rule createArticle_200)
    from Article_create_fields[OF a] have "publishedAt a = ?pub"
      unfolding p by simp
    with pl s' show ?thesis by simp
  qed
  have B: "\<exists>a l c. payload r = UpdatedValues a l c \<and> publishedAt a = ?pub \<and>
         (\<forall>x \<in> set (articles (snd (update TC E now sl req s))).
            slug x = sl \<and> authorId x = req_user req \<longrightarrow> publishedAt x = ?pub)"
    if "sent (fst (update TC E now sl req s)) = Some r" "status r = 200"
  proof -
    from that obtain ad cat tags createTags ts1 img a rows s2 where
      "findBySlug sl s = Some ad" "\<not> isArchived ad" "\<not> emptyBody (req_body req)"
      "updateCategory ad (req_body req) s = Inr (cat, tags)"
      "createTagsStep TC tags (tagTables s) = (Inr createTags, ts1)"
      "uploadStep E (req_file req) = Inr img"
      and u: "Article_update (req_body req) (publishedAtOf (req_body req) now) img cat sl (req_user req)
       (s\<lparr>tagTables := (case createTags of None \<Rightarrow> ts1
            | Some l \<Rightarrow> snd (Tags_associateArticle TC (aid ad) (Some l) ts1))\<rparr>) = Inr (a # rows, s2)"
      and pl: "payload r = UpdatedValues a (map tag_name (getTags (aid ad) (tagTables s2)))
                   (find (\<lambda>c. cid c = cat) (categories s2))"
      and s2: "snd (update TC E now sl req s) = s2"
      by (rule update_200)
    from Article_update_rows[OF u] have
      "\<forall>x \<in> set (articles s2). slug x = sl \<and> authorId x = req_user req \<longrightarrow> publishedAt x = ?pub"
      "publishedAt a = ?pub"
      unfolding p by simp_all
    with pl s2 show ?thesis by blast
  qed
  have C: "\<forall>x \<in> set (articles (snd (update TC E now sl req s))).
         slug x = sl \<and> authorId x = req_user req \<longrightarrow> publishedAt x = None"
    if e: "emptyBody (req_body req)" and ad: "findBySlug sl s = Some ad" "\<not> isArchived ad"
      and f: "req_file req = None"
  proof -
    have c: "updateCategory ad (req_body req) s = Inr (categoryId ad, None)"
      using e by (simp add: updateCategory_def emptyBody_def)
    have t: "createTagsStep TC None (tagTables s) = (Inr None, tagTables s)"
      by (simp add: createTagsStep_def)
    have u: "uploadStep E (req_file req) = Inr None"
      using f by (simp add: uploadStep_def)
    have "\<exists>rows s2. Article_update (req_body req) (publishedAtOf (req_body req) now) None
        (categoryId ad) sl (req_user req) s = Inr (rows, s2)"
      using e by (simp add: Article_update_def emptyBody_def Let_def)
    then obtain rows s2 where w: "Article_update (req_body req) (publishedAtOf (req_body req) now) None
        (categoryId ad) sl (req_user req) s = Inr (rows, s2)"
      by blast
    have "snd (update TC E now sl req s) = s2"
      using update_written[OF ad c t u] w by simp
    moreover have "publishedAtOf (req_body req) now = None"
      using e by (simp add: publishedAtOf_def emptyBody_def)
    ultimately show ?thesis
      using Article_update_rows[OF w] by simp
  qed
  from A B C show ?thesis by blast
qed

theorem publishedAt_follows_request_body_witness:
  "sent (fst (createArticle TagsSpec exampleEnv 5000 exampleRequest exampleDb)) =
     Some \<lparr>status = 200,
           payload = ArticleValues secondPost [''tech'', ''news'', ''sports''] (2, ''other'')\<rparr> \<and>
   sent (fst (update TagsSpec exampleEnv 5000 ''first-post'' exampleRequest exampleDb)) =
     Some \<lparr>status = 200,
           payload = UpdatedValues firstPostUpdated [''tech'', ''news'', ''sports'']
                       (Some \<lparr>cid = 2, name = ''other''\<rparr>)\<rparr> \<and>
   body_status (req_body exampleRequest) = Some ''publish'' \<and>
   body_articleBody (req_body exampleRequest) = Some ''Text'' \<and>
   publishedAt secondPost = Some 5000 \<and>
   publishedAt firstPostUpdated = Some 5000 \<and>
   emptyBody (req_body emptyRequest) \<and>
   findBySlug ''first-post'' exampleDb = Some firstPost \<and>
   \<not> isArchived firstPost \<and>
   req_file emptyRequest = None \<and>
   map publishedAt (articles (snd (update TagsSpec exampleEnv 5000 ''first-post'' emptyRequest exampleDb))) =
     [None]"
proof -
  have h: "body_status (req_body exampleRequest) = Some ''publish''"
    "body_articleBody (req_body exampleRequest) = Some ''Text''"
    "publishedAt secondPost = Some 5000"
    "publishedAt firstPostUpdated = Some 5000"
    "emptyBody (req_body emptyRequest)"
    "findBySlug ''first-post'' exampleDb = Some firstPost"
    "\<not> isArchived firstPost"
    "req_file emptyRequest = None"
    by (simp_all add: emptyBody_def findBySlug_def example_defs)
  from publishedAt_follows_request_body[of TagsSpec exampleEnv 5000 emptyRequest exampleDb _
      "''first-post''" firstPost] h
  have "\<forall>x \<in> set (articles (snd (update TagsSpec exampleEnv 5000 ''first-post'' emptyRequest exampleDb))).
          slug x = ''first-post'' \<and> authorId x = req_user emptyRequest \<longrightarrow> publishedAt x = None"
    by simp
  then have "map publishedAt
      (articles (snd (update TagsSpec exampleEnv 5000 ''first-post'' emptyRequest exampleDb))) = [None]"
    by (simp add: example_empty)
  with h show ?thesis
    by (simp add: example_created example_updated)
qed

end
